theory Spec2Isabelle
  imports Complex_Main "HOL-Library.Sublist"
begin

section \<open>Python values and exceptions\<close>

text \<open>
  The agentic workflow stores whatever \<^verbatim>\<open>json.loads\<close> returned for the model's reply
  in its state, so the fields fed from a reply (decision, confidence, gaps, refined query,
  draft answer, claims) hold arbitrary JSON values. A JSON object is the list of its
  items; \<^verbatim>\<open>dict.get\<close> is a lookup in that list. Scores are Python floats: the code
  only compares them and takes their maximum, so they are modelled by the reals they
  denote (no NaN).
\<close>

datatype json =
    JNull
  | JBool bool
  | JNum real
  | JStr string
  | JArr "json list"
  | JObj "(string \<times> json) list"

datatype py_exn =
    AttributeError string
  | TypeError string
  | ValueError string
  | BackendError string

fun str_exn :: "py_exn \<Rightarrow> string" where
  "str_exn (AttributeError m) = m"
| "str_exn (TypeError m) = m"
| "str_exn (ValueError m) = m"
| "str_exn (BackendError m) = m"

text \<open>\<^verbatim>\<open>result.get(key, default)\<close>: only a dict has \<^verbatim>\<open>get\<close>.\<close>

fun dict_get :: "json \<Rightarrow> string \<Rightarrow> json \<Rightarrow> py_exn + json" where
  "dict_get (JObj kvs) k d = Inr (case map_of kvs k of Some v \<Rightarrow> v | None \<Rightarrow> d)"
| "dict_get _ k d = Inl (AttributeError ''object has no attribute get'')"

text \<open>Truth value of a Python object, as \<^verbatim>\<open>if x\<close>, \<^verbatim>\<open>not x\<close> and \<^verbatim>\<open>x or y\<close> read it.\<close>

fun py_truthy :: "json \<Rightarrow> bool" where
  "py_truthy JNull = False"
| "py_truthy (JBool b) = b"
| "py_truthy (JNum x) = (x \<noteq> 0)"
| "py_truthy (JStr s) = (s \<noteq> [])"
| "py_truthy (JArr xs) = (xs \<noteq> [])"
| "py_truthy (JObj kvs) = (kvs \<noteq> [])"

text \<open>\<^verbatim>\<open>len(x)\<close>: defined on strings, lists and dicts, a TypeError elsewhere.\<close>

fun py_len :: "json \<Rightarrow> py_exn + nat" where
  "py_len (JStr s) = Inr (length s)"
| "py_len (JArr xs) = Inr (length xs)"
| "py_len (JObj kvs) = Inr (length kvs)"
| "py_len _ = Inl (TypeError ''object has no len()'')"

text \<open>\<^verbatim>\<open>x[:n]\<close>: defined on strings and lists, raises elsewhere.\<close>

fun py_slice :: "nat \<Rightarrow> json \<Rightarrow> py_exn + json" where
  "py_slice n (JStr s) = Inr (JStr (take n s))"
| "py_slice n (JArr xs) = Inr (JArr (take n xs))"
| "py_slice n _ = Inl (TypeError ''object is not subscriptable'')"

text \<open>Whether a value can be a dict key (\<^verbatim>\<open>confidence_map.get(x, ...)\<close> hashes \<open>x\<close>).\<close>

fun py_hashable :: "json \<Rightarrow> bool" where
  "py_hashable (JArr xs) = False"
| "py_hashable (JObj kvs) = False"
| "py_hashable _ = True"

text \<open>\<^verbatim>\<open>str(i)\<close> for a natural number, used by the default chunk id \<^verbatim>\<open>f'chunk_{i}'\<close>.\<close>

fun str_nat :: "nat \<Rightarrow> string" where
  "str_nat n =
     (if n < 10 then [char_of (48 + n)]
      else str_nat (n div 10) @ [char_of (48 + n mod 10)])"

text \<open>\<^verbatim>\<open>truncate_text\<close> of utils.py.\<close>

definition truncate_text :: "string \<Rightarrow> nat \<Rightarrow> string" where
  "truncate_text text max_length =
     (if length text \<le> max_length then text else take max_length text @ ''...'')"

section \<open>Retrieved documents\<close>

text \<open>
  A LangChain \<^verbatim>\<open>Document\<close>: its text and the two metadata entries the code reads
  (\<^verbatim>\<open>metadata.get('source', ...)\<close>, \<^verbatim>\<open>metadata.get('chunk_id', ...)\<close>; \<open>None\<close> is a
  missing key).
\<close>

record document =
  page_content :: string
  meta_source :: "string option"
  meta_chunk_id :: "string option"

type_synonym scored_docs = "(document \<times> real) list"

section \<open>Agentic workflow: state and backend\<close>

text \<open>
  String literals of the source that are not ASCII are written with their code points
  (\<open><U+672A>\<close> stands for one character of the source). Only their identity is
  used, never their length.
\<close>

definition DRAFT_NOT_FOUND :: string where
  "DRAFT_NOT_FOUND =
     ''<U+672A><U+80FD><U+627E><U+5230><U+76F8><U+5173><U+4FE1><U+606F><U+3002>''"

definition DRAFT_ERROR_PREFIX :: string where
  "DRAFT_ERROR_PREFIX = ''<U+751F><U+6210><U+56DE><U+7B54><U+65F6><U+51FA><U+9519>: ''"

definition AGENTIC_ERROR_PREFIX :: string where
  "AGENTIC_ERROR_PREFIX = ''Agentic RAG <U+6267><U+884C><U+51FA><U+9519>: ''"

datatype ConfidenceLevel = HIGH | MEDIUM | LOW

fun level_value :: "ConfidenceLevel \<Rightarrow> string" where
  "level_value HIGH = ''high''"
| "level_value MEDIUM = ''medium''"
| "level_value LOW = ''low''"

record chunk_info =
  ci_content :: string
  ci_source :: string
  ci_chunk_id :: string
  ci_score :: real

record source_info =
  si_source :: string
  si_chunk_id :: string
  si_snippet :: string
  si_score :: real
  si_rank_before :: nat
  si_rank_after :: nat

text \<open>One entry of \<^verbatim>\<open>reasoning_trace\<close>, one constructor per dict shape the nodes build.\<close>

datatype trace_entry =
    TraceRetrieve json nat real
  | TraceDraftNoChunks
  | TraceDraft nat
  | TraceDraftError string
  | TraceCritiqueNoClaims
  | TraceCritique json json nat json
  | TraceCritiqueError string
  | TraceRefine json int
  | TraceFinalize string

text \<open>
  \<^verbatim>\<open>AgentState\<close>. The field \<^verbatim>\<open>filters\<close> is never read and is left out. Fields that
  receive parts of a parsed reply are JSON values.
\<close>

record agent_state =
  original_query :: string
  current_query :: json
  user_id :: string
  top_k :: int
  retrieval_mode :: string
  retrieved_chunks :: "chunk_info list"
  all_sources :: "source_info list"
  draft_answer :: json
  claims :: json
  critique_result :: json
  decision :: json
  refined_query :: json
  gaps :: json
  loop_count :: int
  max_loops :: int
  final_answer :: json
  confidence :: json
  reasoning_trace :: "trace_entry list"

datatype node = Retrieve | Draft | Critique | Refine | Finalize

text \<open>
  Everything outside the module is a parameter. Each backend answer may depend on the
  whole state at the moment of the call, so successive rounds may see unrelated answers.
  \<^item> \<open>search_similar_result\<close>, \<open>search_mmr_result\<close>: what \<^verbatim>\<open>search_similar\<close> and
    \<^verbatim>\<open>search_mmr\<close> return to \<^verbatim>\<open>retrieve_node\<close> (both always return a list, see the
    vector store section);
  \<^item> \<open>round3\<close>: \<^verbatim>\<open>round(float(score), 3)\<close>;
  \<^item> \<open>get_llm\<close>: \<open>Some e\<close> when \<^verbatim>\<open>get_llm()\<close> raises \<open>e\<close> in that node;
  \<^item> \<open>llm_invoke\<close>: the outcome of formatting the prompt and calling \<^verbatim>\<open>llm.invoke\<close>
    in that node, the reply's \<^verbatim>\<open>content\<close> or the exception raised;
  \<^item> \<open>json_loads\<close>: \<^verbatim>\<open>json.loads\<close>, \<open>None\<close> for \<^verbatim>\<open>JSONDecodeError\<close>.
\<close>

record agent_env =
  search_similar_result :: "agent_state \<Rightarrow> scored_docs"
  search_mmr_result :: "agent_state \<Rightarrow> scored_docs"
  round3 :: "real \<Rightarrow> real"
  get_llm :: "node \<Rightarrow> agent_state \<Rightarrow> py_exn option"
  llm_invoke :: "node \<Rightarrow> agent_state \<Rightarrow> py_exn + string"
  json_loads :: "string \<Rightarrow> json option"

section \<open>Extracting the JSON text of a reply\<close>

text \<open>
  \<open>split_first pat s\<close> cuts \<open>s\<close> at the first occurrence of \<open>pat\<close>. The nodes do
  \<^verbatim>\<open>content.split(F + 'json')[1].split(F)[0]\<close> when the fence \<open>F\<close> followed by
  \<^verbatim>\<open>json\<close> occurs, \<^verbatim>\<open>content.split(F)[1].split(F)[0]\<close> when only the fence occurs:
  the text after the first marker, up to the next fence.
\<close>

fun split_first :: "string \<Rightarrow> string \<Rightarrow> (string \<times> string) option" where
  "split_first pat [] = None"
| "split_first pat (c # cs) =
     (if prefix pat (c # cs) then Some ([], drop (length pat) (c # cs))
      else (case split_first pat cs of
              None \<Rightarrow> None
            | Some (b, a) \<Rightarrow> Some (c # b, a)))"

definition FENCE :: string where
  "FENCE = [CHR 0x60, CHR 0x60, CHR 0x60]"

definition before_fence :: "string \<Rightarrow> string" where
  "before_fence s = (case split_first FENCE s of None \<Rightarrow> s | Some (b, a) \<Rightarrow> b)"

definition extract_json :: "string \<Rightarrow> string" where
  "extract_json content =
     (case split_first (FENCE @ ''json'') content of
        Some (b, a) \<Rightarrow> before_fence a
      | None \<Rightarrow>
          (case split_first FENCE content of
             Some (b, a) \<Rightarrow> before_fence a
           | None \<Rightarrow> content))"

section \<open>Agentic workflow: nodes\<close>

definition chunk_of :: "agent_env \<Rightarrow> nat \<Rightarrow> document \<Rightarrow> real \<Rightarrow> chunk_info" where
  "chunk_of env i doc score_raw =
     \<lparr> ci_content = page_content doc,
       ci_source = (case meta_source doc of Some s \<Rightarrow> s | None \<Rightarrow> ''unknown''),
       ci_chunk_id = (case meta_chunk_id doc of Some c \<Rightarrow> c | None \<Rightarrow> ''chunk_'' @ str_nat i),
       ci_score = round3 env score_raw \<rparr>"

definition source_of :: "agent_env \<Rightarrow> nat \<Rightarrow> document \<Rightarrow> real \<Rightarrow> source_info" where
  "source_of env i doc score_raw =
     (let chunk = chunk_of env i doc score_raw in
      \<lparr> si_source = ci_source chunk,
        si_chunk_id = ci_chunk_id chunk,
        si_snippet = truncate_text (page_content doc) 300,
        si_score = ci_score chunk,
        si_rank_before = i + 1,
        si_rank_after = i + 1 \<rparr>)"

definition retrieve_results :: "agent_env \<Rightarrow> agent_state \<Rightarrow> scored_docs" where
  "retrieve_results env st =
     (if retrieval_mode st = ''mmr'' then search_mmr_result env st
      else search_similar_result env st)"

text \<open>
  A node returns the keys it updates; the graph engine overwrites those keys, except
  \<^verbatim>\<open>all_sources\<close>, which is declared \<^verbatim>\<open>Annotated[List, add]\<close>: the returned list is
  appended to the stored one. The node functions below return the state after that
  merge. \<^verbatim>\<open>reasoning_trace\<close> has no reducer, so each node replaces it.
\<close>

definition retrieve_node :: "agent_env \<Rightarrow> agent_state \<Rightarrow> agent_state" where
  "retrieve_node env st =
     (let results = retrieve_results env st;
          chunks = map (\<lambda>(i, doc, sc). chunk_of env i doc sc) (enumerate 0 results);
          srcs = map (\<lambda>(i, doc, sc). source_of env i doc sc) (enumerate 0 results)
      in st\<lparr> retrieved_chunks := chunks,
              all_sources := all_sources st @ srcs,
              reasoning_trace :=
                [TraceRetrieve (current_query st) (length chunks)
                   (case chunks of [] \<Rightarrow> 0 | c # cs \<Rightarrow> ci_score c)] \<rparr>)"

text \<open>The body of the inner \<^verbatim>\<open>try\<close> of \<^verbatim>\<open>draft_node\<close>: parse the reply.\<close>

definition parse_draft :: "agent_env \<Rightarrow> string \<Rightarrow> py_exn + (json \<times> json)" where
  "parse_draft env response_content =
     (let content = extract_json response_content in
      case json_loads env content of
        None \<Rightarrow> Inr (JStr response_content, JArr [])
      | Some result \<Rightarrow>
          (case dict_get result ''answer'' (JStr content) of
             Inl e \<Rightarrow> Inl e
           | Inr ans \<Rightarrow>
               (case dict_get result ''claims'' (JArr []) of
                  Inl e \<Rightarrow> Inl e
                | Inr cl \<Rightarrow> Inr (ans, cl))))"

text \<open>The body of the outer \<^verbatim>\<open>try\<close> of \<^verbatim>\<open>draft_node\<close>.\<close>

definition draft_try :: "agent_env \<Rightarrow> agent_state \<Rightarrow> py_exn + agent_state" where
  "draft_try env st =
     (case llm_invoke env Draft st of
        Inl e \<Rightarrow> Inl e
      | Inr response_content \<Rightarrow>
          (case parse_draft env response_content of
             Inl e \<Rightarrow> Inl e
           | Inr (ans, cl) \<Rightarrow>
               (case py_len cl of
                  Inl e \<Rightarrow> Inl e
                | Inr n \<Rightarrow>
                    Inr (st\<lparr> draft_answer := ans, claims := cl,
                             reasoning_trace := [TraceDraft n] \<rparr>))))"

definition draft_node :: "agent_env \<Rightarrow> agent_state \<Rightarrow> py_exn + agent_state" where
  "draft_node env st =
     (if retrieved_chunks st = [] then
        Inr (st\<lparr> draft_answer := JStr DRAFT_NOT_FOUND, claims := JArr [],
                 reasoning_trace := [TraceDraftNoChunks] \<rparr>)
      else
        (case get_llm env Draft st of
           Some e \<Rightarrow> Inl e
         | None \<Rightarrow>
             (case draft_try env st of
                Inr st' \<Rightarrow> Inr st'
              | Inl e \<Rightarrow>
                  Inr (st\<lparr> draft_answer := JStr (DRAFT_ERROR_PREFIX @ str_exn e),
                           claims := JArr [],
                           reasoning_trace := [TraceDraftError (str_exn e)] \<rparr>))))"

text \<open>The dict that replaces the reply when \<^verbatim>\<open>json.loads\<close> raises \<^verbatim>\<open>JSONDecodeError\<close>.\<close>

definition critique_parse_default :: json where
  "critique_parse_default =
     JObj [(''decision'', JStr ''final''), (''confidence'', JStr ''medium''),
           (''gaps'', JArr []), (''refined_query'', JNull)]"

text \<open>The body of the \<^verbatim>\<open>try\<close> of \<^verbatim>\<open>critique_node\<close>.\<close>

definition critique_try :: "agent_env \<Rightarrow> agent_state \<Rightarrow> py_exn + agent_state" where
  "critique_try env st =
     (case llm_invoke env Critique st of
        Inl e \<Rightarrow> Inl e
      | Inr response_content \<Rightarrow>
     (let result = (case json_loads env (extract_json response_content) of
                      None \<Rightarrow> critique_parse_default
                    | Some r \<Rightarrow> r) in
      case dict_get result ''decision'' (JStr ''final'') of
        Inl e \<Rightarrow> Inl e
      | Inr decision0 \<Rightarrow>
     (case dict_get result ''confidence'' (JStr ''medium'') of
        Inl e \<Rightarrow> Inl e
      | Inr conf \<Rightarrow>
     (case dict_get result ''gaps'' (JArr []) of
        Inl e \<Rightarrow> Inl e
      | Inr gps \<Rightarrow>
     (case dict_get result ''refined_query'' JNull of
        Inl e \<Rightarrow> Inl e
      | Inr rq \<Rightarrow>
     (let dec = (if loop_count st \<ge> max_loops st - 1 then JStr ''final'' else decision0) in
      case py_len gps of
        Inl e \<Rightarrow> Inl e
      | Inr gaps_count \<Rightarrow>
     (case (if py_truthy rq then py_slice 50 rq else Inr JNull) of
        Inl e \<Rightarrow> Inl e
      | Inr rq50 \<Rightarrow>
          Inr (st\<lparr> critique_result := result, decision := dec, refined_query := rq,
                   gaps := gps, confidence := conf,
                   reasoning_trace := [TraceCritique dec conf gaps_count rq50] \<rparr>))))))))"

definition critique_node :: "agent_env \<Rightarrow> agent_state \<Rightarrow> py_exn + agent_state" where
  "critique_node env st =
     (if \<not> py_truthy (claims st) then
        Inr (st\<lparr> critique_result :=
                   JObj [(''decision'', JStr ''final''), (''confidence'', JStr ''medium'')],
                 decision := JStr ''final'', refined_query := JNull, gaps := JArr [],
                 confidence := JStr ''medium'',
                 reasoning_trace := [TraceCritiqueNoClaims] \<rparr>)
      else
        (case get_llm env Critique st of
           Some e \<Rightarrow> Inl e
         | None \<Rightarrow>
             (case critique_try env st of
                Inr st' \<Rightarrow> Inr st'
              | Inl e \<Rightarrow>
                  Inr (st\<lparr> critique_result := JObj [], decision := JStr ''final'',
                           refined_query := JNull, gaps := JArr [],
                           confidence := JStr ''low'',
                           reasoning_trace := [TraceCritiqueError (str_exn e)] \<rparr>))))"

text \<open>
  \<^verbatim>\<open>refine_query_node\<close>. Its first statement logs
  \<^verbatim>\<open>state.get('refined_query', '')[:50]\<close>; the key is always present, so the slice is
  taken of the stored value and raises when that value cannot be sliced.
\<close>

definition refine_query_node :: "agent_env \<Rightarrow> agent_state \<Rightarrow> py_exn + agent_state" where
  "refine_query_node env st =
     (case py_slice 50 (refined_query st) of
        Inl e \<Rightarrow> Inl e
      | Inr logged \<Rightarrow>
     (let new_query = (if py_truthy (refined_query st) then refined_query st
                       else JStr (original_query st));
          new_loop_count = loop_count st + 1 in
      case py_slice 50 new_query of
        Inl e \<Rightarrow> Inl e
      | Inr q50 \<Rightarrow>
          Inr (st\<lparr> current_query := new_query, loop_count := new_loop_count,
                   reasoning_trace := [TraceRefine q50 new_loop_count] \<rparr>)))"

definition confidence_map :: "json \<Rightarrow> ConfidenceLevel" where
  "confidence_map c =
     (if c = JStr ''high'' then HIGH
      else if c = JStr ''medium'' then MEDIUM
      else if c = JStr ''low'' then LOW
      else MEDIUM)"

definition finalize_answer :: "agent_env \<Rightarrow> agent_state \<Rightarrow> py_exn + json" where
  "finalize_answer env st =
     (if confidence st = JStr ''high'' \<or> confidence st = JStr ''medium''
         \<or> \<not> py_truthy (gaps st)
      then Inr (draft_answer st)
      else
        (case get_llm env Finalize st of
           Some e \<Rightarrow> Inl e
         | None \<Rightarrow>
             (case llm_invoke env Finalize st of
                Inr response_content \<Rightarrow> Inr (JStr response_content)
              | Inl e \<Rightarrow> Inr (draft_answer st))))"

definition finalize_node :: "agent_env \<Rightarrow> agent_state \<Rightarrow> py_exn + agent_state" where
  "finalize_node env st =
     (case finalize_answer env st of
        Inl e \<Rightarrow> Inl e
      | Inr ans \<Rightarrow>
          (if \<not> py_hashable (confidence st) then Inl (TypeError ''unhashable type'')
           else
             (let final_confidence = confidence_map (confidence st) in
              Inr (st\<lparr> final_answer := ans,
                       confidence := JStr (level_value final_confidence),
                       reasoning_trace := [TraceFinalize (level_value final_confidence)] \<rparr>))))"

definition should_continue :: "agent_state \<Rightarrow> string" where
  "should_continue st =
     (if decision st = JStr ''need_more'' \<and> loop_count st < max_loops st then ''refine''
      else ''finalize'')"

section \<open>Agentic workflow: the graph\<close>

text \<open>
  \<^verbatim>\<open>create_agentic_rag_graph\<close>: entry point \<open>Retrieve\<close>; edges retrieve to draft,
  draft to critique, the conditional edge after critique chosen by \<^verbatim>\<open>should_continue\<close>,
  refine to retrieve, finalize to \<^verbatim>\<open>END\<close> (\<open>None\<close>). An exception raised in a node
  leaves the graph (\<open>Inl\<close>).
\<close>

definition graph_step ::
  "agent_env \<Rightarrow> node \<Rightarrow> agent_state \<Rightarrow> py_exn + (node option \<times> agent_state)" where
  "graph_step env n st =
     (case n of
        Retrieve \<Rightarrow> Inr (Some Draft, retrieve_node env st)
      | Draft \<Rightarrow>
          (case draft_node env st of
             Inl e \<Rightarrow> Inl e
           | Inr st' \<Rightarrow> Inr (Some Critique, st'))
      | Critique \<Rightarrow>
          (case critique_node env st of
             Inl e \<Rightarrow> Inl e
           | Inr st' \<Rightarrow>
               Inr (if should_continue st' = ''refine'' then Some Refine else Some Finalize,
                    st'))
      | Refine \<Rightarrow>
          (case refine_query_node env st of
             Inl e \<Rightarrow> Inl e
           | Inr st' \<Rightarrow> Inr (Some Retrieve, st'))
      | Finalize \<Rightarrow>
          (case finalize_node env st of
             Inl e \<Rightarrow> Inl e
           | Inr st' \<Rightarrow> Inr (None, st')))"

text \<open>The number of node executions still possible from a node, used for termination.\<close>

definition steps_bound :: "node \<Rightarrow> agent_state \<Rightarrow> nat" where
  "steps_bound n st =
     (let base = 5 * nat (max_loops st - loop_count st) in
      case n of
        Retrieve \<Rightarrow> base + 4
      | Draft \<Rightarrow> base + 3
      | Critique \<Rightarrow> base + 2
      | Refine \<Rightarrow> (if loop_count st < max_loops st then base + 1 else 5)
      | Finalize \<Rightarrow> 1)"

lemma retrieve_node_loop:
  "loop_count (retrieve_node env st) = loop_count st \<and>
   max_loops (retrieve_node env st) = max_loops st"
  by (simp add: retrieve_node_def Let_def)

lemma draft_node_loop:
  "draft_node env st = Inr st' \<Longrightarrow>
   loop_count st' = loop_count st \<and> max_loops st' = max_loops st"
  by (auto simp: draft_node_def draft_try_def
           split: if_splits option.splits sum.splits prod.splits)

lemma critique_try_loop:
  "critique_try env st = Inr st' \<Longrightarrow>
   loop_count st' = loop_count st \<and> max_loops st' = max_loops st"
  by (auto simp: critique_try_def Let_def split: sum.splits)

lemma critique_node_loop:
  "critique_node env st = Inr st' \<Longrightarrow>
   loop_count st' = loop_count st \<and> max_loops st' = max_loops st"
  by (auto simp: critique_node_def dest: critique_try_loop
           split: if_splits option.splits sum.splits)

lemma refine_query_node_loop:
  "refine_query_node env st = Inr st' \<Longrightarrow>
   loop_count st' = loop_count st + 1 \<and> max_loops st' = max_loops st"
  by (auto simp: refine_query_node_def Let_def split: sum.splits)

lemma should_continue_refine:
  "should_continue st = ''refine'' \<longleftrightarrow>
   decision st = JStr ''need_more'' \<and> loop_count st < max_loops st"
  by (simp add: should_continue_def)

lemma graph_step_decreases:
  assumes "graph_step env n st = Inr (Some n', st')"
  shows "steps_bound n' st' < steps_bound n st"
proof (cases n)
  case Retrieve
  with assms show ?thesis
    by (auto simp: graph_step_def steps_bound_def retrieve_node_loop)
next
  case Draft
  with assms obtain "draft_node env st = Inr st'" and "n' = Critique"
    by (auto simp: graph_step_def split: sum.splits)
  then show ?thesis
    using Draft draft_node_loop [of env st st'] by (simp add: steps_bound_def)
next
  case Critique
  with assms have c: "critique_node env st = Inr st'"
    and n': "n' = (if should_continue st' = ''refine'' then Refine else Finalize)"
    by (auto simp: graph_step_def split: sum.splits if_splits)
  from c have eq: "loop_count st' = loop_count st" "max_loops st' = max_loops st"
    using critique_node_loop by blast+
  show ?thesis
  proof (cases "should_continue st' = ''refine''")
    case True
    then have "loop_count st' < max_loops st'"
      by (simp add: should_continue_refine)
    with True n' eq Critique show ?thesis
      by (simp add: steps_bound_def)
  next
    case False
    with n' Critique show ?thesis
      by (simp add: steps_bound_def)
  qed
next
  case Refine
  with assms have r: "refine_query_node env st = Inr st'" and n': "n' = Retrieve"
    by (auto simp: graph_step_def split: sum.splits)
  from r have eq: "loop_count st' = loop_count st + 1" "max_loops st' = max_loops st"
    using refine_query_node_loop by blast+
  show ?thesis
  proof (cases "loop_count st < max_loops st")
    case True
    then have "nat (max_loops st - loop_count st) = Suc (nat (max_loops st - (loop_count st + 1)))"
      by simp
    with True n' eq Refine show ?thesis
      by (simp add: steps_bound_def)
  next
    case False
    then have "nat (max_loops st - (loop_count st + 1)) = 0"
      by simp
    with False n' eq Refine show ?thesis
      by (simp add: steps_bound_def)
  qed
next
  case Finalize
  with assms show ?thesis
    by (auto simp: graph_step_def split: sum.splits)
qed

text \<open>
  \<^verbatim>\<open>graph.invoke\<close>: run nodes from a given one until \<^verbatim>\<open>END\<close> or an exception.
  The step limit of the graph library is not part of this repository and is not modelled.
\<close>

function invoke_from :: "agent_env \<Rightarrow> node \<Rightarrow> agent_state \<Rightarrow> py_exn + agent_state" where
  "invoke_from env n st =
     (case graph_step env n st of
        Inl e \<Rightarrow> Inl e
      | Inr (None, st') \<Rightarrow> Inr st'
      | Inr (Some n', st') \<Rightarrow> invoke_from env n' st')"
  by pat_completeness auto
termination
  by (relation "measure (\<lambda>(env, n, st). steps_bound n st)")
     (auto dest: graph_step_decreases)

declare invoke_from.simps [simp del]

definition graph_invoke :: "agent_env \<Rightarrow> agent_state \<Rightarrow> py_exn + agent_state" where
  "graph_invoke env initial_state = invoke_from env Retrieve initial_state"

text \<open>\<open>graph_steps i\<close> executes up to \<open>i\<close> nodes, stopping at \<^verbatim>\<open>END\<close> or at an exception.\<close>

fun graph_steps ::
  "nat \<Rightarrow> agent_env \<Rightarrow> node \<Rightarrow> agent_state \<Rightarrow> py_exn + (node option \<times> agent_state)" where
  "graph_steps 0 env n st = Inr (Some n, st)"
| "graph_steps (Suc i) env n st =
     (case graph_step env n st of
        Inl e \<Rightarrow> Inl e
      | Inr (None, st') \<Rightarrow> Inr (None, st')
      | Inr (Some n', st') \<Rightarrow> graph_steps i env n' st')"

section \<open>Agentic workflow: the entry point\<close>

definition initial_state ::
  "string \<Rightarrow> string \<Rightarrow> int \<Rightarrow> string \<Rightarrow> int \<Rightarrow> agent_state" where
  "initial_state question uid k mode max_l =
     \<lparr> original_query = question,
       current_query = JStr question,
       user_id = uid,
       top_k = k,
       retrieval_mode = mode,
       retrieved_chunks = [],
       all_sources = [],
       draft_answer = JStr [],
       claims = JArr [],
       critique_result = JObj [],
       decision = JStr [],
       refined_query = JNull,
       gaps = JArr [],
       loop_count = 0,
       max_loops = max_l,
       final_answer = JStr [],
       confidence = JStr ''medium'',
       reasoning_trace = [] \<rparr>"

text \<open>
  The loop that removes duplicate sources: \<open>seen\<close> is the set of keys met so far,
  \<open>unique_sources\<close> the list built so far.
\<close>

definition source_key :: "source_info \<Rightarrow> string \<times> string" where
  "source_key s = (si_source s, si_chunk_id s)"

fun dedup_loop ::
  "(string \<times> string) set \<Rightarrow> source_info list \<Rightarrow> source_info list \<Rightarrow> source_info list" where
  "dedup_loop seen unique_sources [] = unique_sources"
| "dedup_loop seen unique_sources (s # rest) =
     (let key = source_key s in
      if key \<notin> seen then dedup_loop (insert key seen) (unique_sources @ [s]) rest
      else dedup_loop seen unique_sources rest)"

definition dedup_sources :: "source_info list \<Rightarrow> source_info list" where
  "dedup_sources srcs = dedup_loop {} [] srcs"

text \<open>
  The response of \<^verbatim>\<open>agentic_rag_query\<close>, without \<^verbatim>\<open>message_id\<close> (a fresh UUID),
  \<^verbatim>\<open>saved_file\<close> (always \<^verbatim>\<open>None\<close>) and the sanitised trace. The parameter
  \<open>max_l\<close> is \<^verbatim>\<open>max_loops\<close> after the function has replaced \<^verbatim>\<open>None\<close> by the
  configured default.
\<close>

record agentic_response =
  answer :: json
  sources :: "source_info list"
  response_confidence :: json
  loops_used :: int

definition agentic_rag_query ::
  "agent_env \<Rightarrow> string \<Rightarrow> string \<Rightarrow> int \<Rightarrow> string \<Rightarrow> int \<Rightarrow> agentic_response" where
  "agentic_rag_query env question uid k mode max_l =
     (case graph_invoke env (initial_state question uid k mode max_l) of
        Inr final_state \<Rightarrow>
          \<lparr> answer = final_answer final_state,
            sources = dedup_sources (all_sources final_state),
            response_confidence = confidence final_state,
            loops_used = loop_count final_state + 1 \<rparr>
      | Inl e \<Rightarrow>
          \<lparr> answer = JStr (AGENTIC_ERROR_PREFIX @ str_exn e),
            sources = [],
            response_confidence = JStr ''low'',
            loops_used = 0 \<rparr>)"

section \<open>The vector store module\<close>

text \<open>
  The Chroma client, as far as this module calls it. Each call returns its value or the
  exception it raises.
\<close>

record vectorstore =
  similarity_search_with_score :: "string \<Rightarrow> int \<Rightarrow> py_exn + scored_docs"
  max_marginal_relevance_search :: "string \<Rightarrow> int \<Rightarrow> int \<Rightarrow> real \<Rightarrow> py_exn + document list"

text \<open>The module globals \<^verbatim>\<open>_vectorstore\<close> and \<^verbatim>\<open>_is_ready\<close>.\<close>

record store_globals =
  vectorstore_global :: "vectorstore option"
  is_ready_global :: bool

text \<open>
  What the module finds outside itself:
  \<^item> \<open>get_embeddings\<close>: \<open>Some e\<close> when \<^verbatim>\<open>get_embeddings()\<close> raises \<open>e\<close>;
  \<^item> \<open>chroma_db_exists\<close>: whether \<^verbatim>\<open>chroma.sqlite3\<close> exists in the Chroma directory,
    that is, whether an index has been built;
  \<^item> \<open>open_chroma\<close>: the constructor \<^verbatim>\<open>Chroma(persist_directory=...)\<close>;
  \<^item> \<open>collection_count\<close>: \<open>Some e\<close> when \<^verbatim>\<open>_collection.count()\<close> raises \<open>e\<close>;
  \<^item> \<open>embed_query\<close>: \<open>Some e\<close> when \<^verbatim>\<open>embeddings.embed_query(query)\<close> raises \<open>e\<close>.
  Creating the Chroma directory and logging are taken to succeed.
\<close>

record store_env =
  get_embeddings :: "py_exn option"
  chroma_db_exists :: bool
  open_chroma :: "py_exn + vectorstore"
  collection_count :: "py_exn option"
  embed_query :: "string \<Rightarrow> py_exn option"

definition store_not_loaded :: "store_globals \<Rightarrow> store_globals" where
  "store_not_loaded g = g\<lparr> vectorstore_global := None, is_ready_global := False \<rparr>"

definition get_vectorstore ::
  "store_env \<Rightarrow> store_globals \<Rightarrow> store_globals \<times> vectorstore option" where
  "get_vectorstore env g =
     (case vectorstore_global g of
        Some vs \<Rightarrow> (g, Some vs)
      | None \<Rightarrow>
          (case get_embeddings env of
             Some e \<Rightarrow> (store_not_loaded g, None)
           | None \<Rightarrow>
               if chroma_db_exists env then
                 (case open_chroma env of
                    Inl e \<Rightarrow> (store_not_loaded g, None)
                  | Inr vs \<Rightarrow>
                      (case collection_count env of
                         Some e \<Rightarrow> (store_not_loaded g, None)
                       | None \<Rightarrow>
                           (g\<lparr> vectorstore_global := Some vs, is_ready_global := True \<rparr>,
                            Some vs)))
               else (store_not_loaded g, None)))"

definition search_similar ::
  "store_env \<Rightarrow> store_globals \<Rightarrow> string \<Rightarrow> int \<Rightarrow> store_globals \<times> scored_docs" where
  "search_similar env g query k =
     (case get_vectorstore env g of
        (g', None) \<Rightarrow> (g', [])
      | (g', Some vs) \<Rightarrow>
          (case similarity_search_with_score vs query k of
             Inr results \<Rightarrow> (g', results)
           | Inl e \<Rightarrow> (g', [])))"

text \<open>
  The inner \<^verbatim>\<open>try\<close> of \<^verbatim>\<open>search_mmr\<close>: look the selected document up by the first
  200 characters of its text; the bare \<^verbatim>\<open>except\<close> and the empty result both give 0.5.
\<close>

definition rederive_score :: "vectorstore \<Rightarrow> document \<Rightarrow> real" where
  "rederive_score vs doc =
     (case similarity_search_with_score vs (take 200 (page_content doc)) 1 of
        Inl e \<Rightarrow> 0.5
      | Inr [] \<Rightarrow> 0.5
      | Inr ((d, score_found) # rest) \<Rightarrow> score_found)"

definition search_mmr ::
  "store_env \<Rightarrow> store_globals \<Rightarrow> string \<Rightarrow> int \<Rightarrow> int \<Rightarrow> real
   \<Rightarrow> store_globals \<times> scored_docs" where
  "search_mmr env g query k fetch_k lambda_mult =
     (case get_vectorstore env g of
        (g', None) \<Rightarrow> (g', [])
      | (g', Some vs) \<Rightarrow>
          (case max_marginal_relevance_search vs query k fetch_k lambda_mult of
             Inl e \<Rightarrow> (g', [])
           | Inr docs \<Rightarrow>
               if docs \<noteq> [] then
                 (case get_embeddings env of
                    Some e \<Rightarrow> (g', [])
                  | None \<Rightarrow>
                      (case embed_query env query of
                         Some e \<Rightarrow> (g', [])
                       | None \<Rightarrow> (g', map (\<lambda>doc. (doc, rederive_score vs doc)) docs)))
               else (g', [])))"

definition is_vectorstore_ready :: "store_env \<Rightarrow> store_globals \<Rightarrow> store_globals \<times> bool" where
  "is_vectorstore_ready env g =
     (if \<not> is_ready_global g then
        (let g' = fst (get_vectorstore env g) in (g', is_ready_global g'))
      else (g, is_ready_global g))"

section \<open>Single-pass RAG: the confidence evaluator\<close>

text \<open>
  The entries of \<^verbatim>\<open>get_rag_config()\<close> that the query path reads. The float literals
  \<^verbatim>\<open>0.7\<close> and \<^verbatim>\<open>0.4\<close> are the reals of that name.
\<close>

record rag_config =
  min_score :: real
  min_sources :: int
  mmr_lambda :: real

text \<open>\<^verbatim>\<open>max(score for _, score in docs) if docs else 0\<close>.\<close>

definition max_score_of :: "scored_docs \<Rightarrow> real" where
  "max_score_of docs = (case map snd docs of [] \<Rightarrow> 0 | x # xs \<Rightarrow> fold max xs x)"

text \<open>\<^verbatim>\<open>sum(1 for _, score in docs if score >= min_score)\<close>.\<close>

definition valid_sources_of :: "scored_docs \<Rightarrow> real \<Rightarrow> int" where
  "valid_sources_of docs ms = int (length (filter (\<lambda>(doc, sc). sc \<ge> ms) docs))"

definition calculate_confidence :: "scored_docs \<Rightarrow> rag_config \<Rightarrow> ConfidenceLevel \<times> bool" where
  "calculate_confidence docs config =
     (if docs = [] then (LOW, True)
      else
        (let max_score = max_score_of docs;
             valid_sources = valid_sources_of docs (min_score config);
             need_fallback = (max_score < min_score config \<or> valid_sources < min_sources config);
             conf = (if need_fallback then LOW
                     else if max_score \<ge> 0.7 \<and> valid_sources \<ge> 3 then HIGH
                     else if max_score \<ge> 0.4 \<and> valid_sources \<ge> 2 then MEDIUM
                     else MEDIUM)
         in (conf, need_fallback)))"

section \<open>Single-pass RAG: the query functions\<close>

datatype AnswerMode = STRICT | BALANCED | CREATIVE

datatype RetrievalMode = SIMILARITY | MMR

text \<open>The three system prompts, by name; their text is not inspected.\<close>

datatype prompt_template = RAG_STRICT_TEMPLATE | RAG_BALANCED_TEMPLATE | RAG_CREATIVE_TEMPLATE

fun get_prompt_template :: "AnswerMode \<Rightarrow> prompt_template" where
  "get_prompt_template STRICT = RAG_STRICT_TEMPLATE"
| "get_prompt_template BALANCED = RAG_BALANCED_TEMPLATE"
| "get_prompt_template CREATIVE = RAG_CREATIVE_TEMPLATE"

definition NOT_READY_ANSWER :: string where
  "NOT_READY_ANSWER =
     ''<U+62B1><U+6B49><U+FF0C><U+77E5><U+8BC6><U+5E93><U+5C1A><U+672A><U+521D><U+59CB><U+5316><U+3002><U+8BF7><U+5148><U+4E0A><U+4F20><U+6587><U+6863><U+5E76><U+6267><U+884C><U+5165><U+5E93><U+64CD><U+4F5C><U+3002>''"

definition NOT_READY_STREAM_ERROR :: string where
  "NOT_READY_STREAM_ERROR =
     ''<U+77E5><U+8BC6><U+5E93><U+5C1A><U+672A><U+521D><U+59CB><U+5316><U+FF0C><U+8BF7><U+5148><U+4E0A><U+4F20><U+6587><U+6863><U+5E76><U+6267><U+884C><U+5165><U+5E93><U+64CD><U+4F5C><U+3002>''"

definition NO_DOCS_ANSWER :: string where
  "NO_DOCS_ANSWER =
     ''<U+62B1><U+6B49><U+FF0C><U+5728><U+77E5><U+8BC6><U+5E93><U+4E2D><U+6CA1><U+6709><U+627E><U+5230><U+4E0E><U+60A8><U+95EE><U+9898><U+76F8><U+5173><U+7684><U+5185><U+5BB9><U+3002><U+5EFA><U+8BAE><U+FF1A><U+000A>1. <U+5C1D><U+8BD5><U+6362><U+4E00><U+79CD><U+65B9><U+5F0F><U+63CF><U+8FF0><U+95EE><U+9898><U+000A>2. <U+68C0><U+67E5><U+77E5><U+8BC6><U+5E93><U+662F><U+5426><U+5305><U+542B><U+76F8><U+5173><U+4E3B><U+9898><U+7684><U+6587><U+6863><U+000A>3. <U+4E0A><U+4F20><U+66F4><U+591A><U+76F8><U+5173><U+8D44><U+6599>''"

definition FOUND_NOTHING :: string where
  "FOUND_NOTHING =
     ''<U+672A><U+627E><U+5230><U+4EFB><U+4F55><U+76F8><U+5173><U+8D44><U+6599>''"

text \<open>One call of the generation backend: the prompt template and what fills it.\<close>

record llm_request =
  req_template :: prompt_template
  req_context :: string
  req_question :: string
  req_user_preferences :: string

text \<open>
  What \<^verbatim>\<open>rag_query\<close> and \<^verbatim>\<open>rag_query_stream\<close> find outside rag.py:
  \<^item> \<open>store_ready\<close>: the answer of \<^verbatim>\<open>is_vectorstore_ready()\<close>;
  \<^item> \<open>search_similar_docs\<close>, \<open>search_mmr_docs\<close>: the lists returned by the two search
    functions of the vector store module;
  \<^item> \<open>get_rag_config\<close>, \<open>get_profile_prompt\<close>: the configuration and the user's style prompt;
  \<^item> \<open>format3\<close>: the float format \<^verbatim>\<open>{score:.3f}\<close>; \<open>round3_score\<close>:
    \<^verbatim>\<open>round(float(score), 3)\<close>;
  \<^item> \<open>fallback_template\<close>: \<^verbatim>\<open>FALLBACK_TEMPLATE.format(found_info, max_score, query_keywords)\<close>;
  \<^item> \<open>chain_invoke\<close>: building the model client and invoking the chain, the answer or
    the exception raised;
  \<^item> \<open>stream_chat_completion\<close>: the tokens the streaming call yields, and the exception
    that ends the stream if there is one.
\<close>

record rag_env =
  store_ready :: bool
  search_similar_docs :: "string \<Rightarrow> int \<Rightarrow> scored_docs"
  search_mmr_docs :: "string \<Rightarrow> int \<Rightarrow> int \<Rightarrow> real \<Rightarrow> scored_docs"
  get_rag_config :: rag_config
  get_profile_prompt :: "string \<Rightarrow> string"
  format3 :: "real \<Rightarrow> string"
  round3_score :: "real \<Rightarrow> real"
  fallback_template :: "string \<Rightarrow> real \<Rightarrow> string \<Rightarrow> string"
  chain_invoke :: "llm_request \<Rightarrow> py_exn + string"
  stream_chat_completion :: "llm_request \<Rightarrow> string list \<times> py_exn option"

text \<open>\<^verbatim>\<open>sep.join(parts)\<close>.\<close>

fun join :: "string \<Rightarrow> string list \<Rightarrow> string" where
  "join sep [] = []"
| "join sep [p] = p"
| "join sep (p # q # ps) = p @ sep @ join sep (q # ps)"

definition format_documents :: "rag_env \<Rightarrow> scored_docs \<Rightarrow> string" where
  "format_documents env docs =
     join ([CHR 0x0A] @ ''---'' @ [CHR 0x0A])
       (map (\<lambda>(i, doc, sc).
               ''[<U+6765><U+6E90> '' @ str_nat i @ ''] <U+6587><U+4EF6>: ''
               @ (case meta_source doc of Some s \<Rightarrow> s | None \<Rightarrow> ''unknown'')
               @ '', ID: ''
               @ (case meta_chunk_id doc of Some c \<Rightarrow> c | None \<Rightarrow> ''chunk_'' @ str_nat i)
               @ '', <U+76F8><U+4F3C><U+5EA6>: '' @ format3 env sc @ [CHR 0x0A]
               @ page_content doc @ [CHR 0x0A])
            (enumerate 1 docs))"

definition extract_sources :: "rag_env \<Rightarrow> scored_docs \<Rightarrow> source_info list" where
  "extract_sources env docs =
     map (\<lambda>(i, doc, sc).
            \<lparr> si_source = (case meta_source doc of Some s \<Rightarrow> s | None \<Rightarrow> ''unknown''),
              si_chunk_id = (case meta_chunk_id doc of Some c \<Rightarrow> c | None \<Rightarrow> ''unknown''),
              si_snippet = truncate_text (page_content doc) 300,
              si_score = round3_score env sc,
              si_rank_before = i + 1,
              si_rank_after = i + 1 \<rparr>)
         (enumerate 0 docs)"

definition generate_fallback_response :: "rag_env \<Rightarrow> string \<Rightarrow> scored_docs \<Rightarrow> string" where
  "generate_fallback_response env question docs =
     (let max_score = max_score_of docs;
          query_keywords = take 30 question;
          found_info =
            (if docs \<noteq> [] then
               join [CHR 0x0A]
                 (map (\<lambda>(i, doc, sc).
                         str_nat i @ ''. **''
                         @ (case meta_source doc of Some s \<Rightarrow> s | None \<Rightarrow> ''unknown'')
                         @ ''** (<U+76F8><U+4F3C><U+5EA6>: '' @ format3 env sc @ '')''
                         @ [CHR 0x0A] @ ''   > '' @ truncate_text (page_content doc) 150)
                      (enumerate 1 (take 3 docs)))
             else FOUND_NOTHING)
      in fallback_template env found_info max_score query_keywords)"

text \<open>Step 1 of both query functions: retrieval in the requested mode.\<close>

definition rag_retrieve :: "rag_env \<Rightarrow> string \<Rightarrow> int \<Rightarrow> RetrievalMode \<Rightarrow> scored_docs" where
  "rag_retrieve env question k rmode =
     (if rmode = MMR
      then search_mmr_docs env question k 20 (mmr_lambda (get_rag_config env))
      else search_similar_docs env question k)"

text \<open>Steps 5 to 7 of both query functions: what is sent to the model.\<close>

definition rag_request ::
  "rag_env \<Rightarrow> string \<Rightarrow> string \<Rightarrow> AnswerMode \<Rightarrow> scored_docs \<Rightarrow> llm_request" where
  "rag_request env question uid answer_mode docs =
     \<lparr> req_template = get_prompt_template answer_mode,
       req_context = format_documents env docs,
       req_question = question,
       req_user_preferences = get_profile_prompt env uid \<rparr>"

text \<open>
  The response of \<^verbatim>\<open>rag_query\<close>, without \<^verbatim>\<open>message_id\<close> and \<^verbatim>\<open>saved_file\<close> (saving
  the answer is not modelled).
\<close>

record rag_response =
  rag_answer :: string
  rag_sources :: "source_info list"
  rag_confidence :: ConfidenceLevel

text \<open>
  \<^verbatim>\<open>rag_query\<close> returns the list of generation calls it made together with its result;
  it has no \<^verbatim>\<open>try\<close>, so an exception of the generation call is its result.
\<close>

definition rag_query ::
  "rag_env \<Rightarrow> string \<Rightarrow> string \<Rightarrow> int \<Rightarrow> RetrievalMode \<Rightarrow> AnswerMode
   \<Rightarrow> llm_request list \<times> (py_exn + rag_response)" where
  "rag_query env question uid k rmode answer_mode =
     (if \<not> store_ready env then
        ([], Inr \<lparr> rag_answer = NOT_READY_ANSWER, rag_sources = [], rag_confidence = LOW \<rparr>)
      else
        (let retrieved_docs = rag_retrieve env question k rmode;
             (conf, need_fallback) = calculate_confidence retrieved_docs (get_rag_config env);
             srcs = extract_sources env retrieved_docs
         in if need_fallback \<and> answer_mode = STRICT then
              ([], Inr \<lparr> rag_answer = generate_fallback_response env question retrieved_docs,
                        rag_sources = srcs, rag_confidence = conf \<rparr>)
            else if retrieved_docs = [] then
              ([], Inr \<lparr> rag_answer = NO_DOCS_ANSWER, rag_sources = srcs,
                        rag_confidence = conf \<rparr>)
            else
              (let req = rag_request env question uid answer_mode retrieved_docs in
               ([req],
                case chain_invoke env req of
                  Inl e \<Rightarrow> Inl e
                | Inr ans \<Rightarrow>
                    Inr \<lparr> rag_answer = ans, rag_sources = srcs, rag_confidence = conf \<rparr>))))"

text \<open>
  The events of \<^verbatim>\<open>rag_query_stream\<close>; the end event carries the answer, the sources and
  the confidence value (saving the answer as a document is not modelled).
\<close>

datatype stream_event =
    TokenEvent string
  | ErrorEvent string
  | EndEvent string "source_info list" string

definition char_tokens :: "string \<Rightarrow> stream_event list" where
  "char_tokens ans = map (\<lambda>c. TokenEvent [c]) ans"

definition rag_query_stream ::
  "rag_env \<Rightarrow> string \<Rightarrow> string \<Rightarrow> int \<Rightarrow> RetrievalMode \<Rightarrow> AnswerMode
   \<Rightarrow> llm_request list \<times> stream_event list" where
  "rag_query_stream env question uid k rmode answer_mode =
     (if \<not> store_ready env then ([], [ErrorEvent NOT_READY_STREAM_ERROR])
      else
        (let retrieved_docs = rag_retrieve env question k rmode;
             (conf, need_fallback) = calculate_confidence retrieved_docs (get_rag_config env);
             srcs = extract_sources env retrieved_docs
         in if need_fallback \<and> answer_mode = STRICT then
              (let ans = generate_fallback_response env question retrieved_docs in
               ([], char_tokens ans @ [EndEvent ans srcs (level_value conf)]))
            else if retrieved_docs = [] then
              ([], char_tokens NO_DOCS_ANSWER
                   @ [EndEvent NO_DOCS_ANSWER srcs (level_value conf)])
            else
              (let req = rag_request env question uid answer_mode retrieved_docs;
                   (chunks, failure) = stream_chat_completion env req;
                   tokens = filter (\<lambda>t. t \<noteq> []) chunks
               in case failure of
                    Some e \<Rightarrow> ([req], map TokenEvent tokens @ [ErrorEvent (str_exn e)])
                  | None \<Rightarrow>
                      ([req], map TokenEvent tokens
                              @ [EndEvent (concat tokens) srcs (level_value conf)]))))"

section \<open>Auxiliary notions for the agentic workflow\<close>

text \<open>
  The invariant of the round counter, by the node about to run: the counter is not
  negative; a refine node is only entered below \<open>max_loops - 1\<close>; every other node runs
  with the counter at most \<open>max_loops - 1\<close> (or 0 when \<open>max_loops < 1\<close>).
\<close>

definition round_inv :: "node \<Rightarrow> agent_state \<Rightarrow> bool" where
  "round_inv n st \<longleftrightarrow>
     0 \<le> loop_count st \<and>
     (if n = Refine then loop_count st < max_loops st - 1
      else loop_count st \<le> max 0 (max_loops st - 1))"

text \<open>
  What the response should hold, in the words of the specification: each
  \<open>(source, chunk_id)\<close> pair once, at the position where it was first seen.
\<close>

fun first_seen_spec :: "source_info list \<Rightarrow> source_info list" where
  "first_seen_spec [] = []"
| "first_seen_spec (s # rest) =
     s # first_seen_spec (filter (\<lambda>t. source_key t \<noteq> source_key s) rest)"

text \<open>The sources that \<^verbatim>\<open>retrieve_node\<close> returns under the key \<^verbatim>\<open>all_sources\<close>.\<close>

definition new_sources :: "agent_env \<Rightarrow> agent_state \<Rightarrow> source_info list" where
  "new_sources env st =
     map (\<lambda>(i, doc, sc). source_of env i doc sc) (enumerate 0 (retrieve_results env st))"

text \<open>
  What the rest of a round looks like when the critique step is answered fail-safe with a
  given confidence label: the node returns, the decision is \<^verbatim>\<open>final\<close>, the graph moves
  to finalize, and finalize returns the draft with that confidence.
\<close>

definition fail_safe_round :: "agent_env \<Rightarrow> agent_state \<Rightarrow> string \<Rightarrow> bool" where
  "fail_safe_round env st level =
     (case critique_node env st of
        Inl e \<Rightarrow> False
      | Inr st' \<Rightarrow>
          decision st' = JStr ''final'' \<and> confidence st' = JStr level
          \<and> graph_step env Critique st = Inr (Some Finalize, st')
          \<and> (case finalize_node env st' of
                Inl e \<Rightarrow> False
              | Inr st'' \<Rightarrow>
                  confidence st'' = JStr level \<and> final_answer st'' = draft_answer st))"

section \<open>Example documents, backends and states\<close>

text \<open>
  A backend with no index content whose model always asks for another round: every reply
  parses to a dict with decision \<^verbatim>\<open>need_more\<close> and a refined query.
\<close>

definition need_more_reply :: json where
  "need_more_reply =
     JObj [(''decision'', JStr ''need_more''), (''confidence'', JStr ''high''),
           (''gaps'', JArr [JStr ''g'']), (''refined_query'', JStr ''q2'')]"

definition env_need_more :: agent_env where
  "env_need_more =
     \<lparr> search_similar_result = (\<lambda>st. []),
       search_mmr_result = (\<lambda>st. []),
       round3 = (\<lambda>x. x),
       get_llm = (\<lambda>n st. None),
       llm_invoke = (\<lambda>n st. Inr ''reply''),
       json_loads = (\<lambda>s. Some need_more_reply) \<rparr>"

text \<open>A state in the last permitted round (round 1 of 2) with one claim to check.\<close>

definition st_last_round :: agent_state where
  "st_last_round =
     (initial_state ''q'' ''u'' 5 ''similarity'' 2)
       \<lparr> claims := JArr [JStr ''c''], loop_count := 1 \<rparr>"

text \<open>
  A backend whose index returns one document, whose drafts carry one claim and whose
  critique always asks for more with a refined query; and the same backend with a critique
  that asks for more without naming a refined query (\<^verbatim>\<open>null\<close>).
\<close>

definition doc_a :: document where
  "doc_a = \<lparr> page_content = ''text'', meta_source = Some ''a.md'', meta_chunk_id = Some ''a_0'' \<rparr>"

definition draft_reply :: json where
  "draft_reply = JObj [(''answer'', JStr ''ans''), (''claims'', JArr [JStr ''c''])]"

definition null_refine_reply :: json where
  "null_refine_reply =
     JObj [(''decision'', JStr ''need_more''), (''confidence'', JStr ''low''),
           (''gaps'', JArr [JStr ''g'']), (''refined_query'', JNull)]"

definition env_two_rounds :: agent_env where
  "env_two_rounds =
     \<lparr> search_similar_result = (\<lambda>st. [(doc_a, 0.8)]),
       search_mmr_result = (\<lambda>st. []),
       round3 = (\<lambda>x. x),
       get_llm = (\<lambda>n st. None),
       llm_invoke = (\<lambda>n st. Inr (if n = Draft then ''D'' else ''C'')),
       json_loads = (\<lambda>s. if s = ''D'' then Some draft_reply else Some need_more_reply) \<rparr>"

definition env_null_refine :: agent_env where
  "env_null_refine =
     env_two_rounds \<lparr> json_loads := (\<lambda>s. if s = ''D'' then Some draft_reply
                                          else Some null_refine_reply) \<rparr>"

text \<open>
  The source entry built from \<open>doc_a\<close>, and the state in which the run on
  \<open>env_two_rounds\<close> ends.
\<close>

definition src_a :: source_info where
  "src_a = \<lparr> si_source = ''a.md'', si_chunk_id = ''a_0'', si_snippet = ''text'',
              si_score = 0.8, si_rank_before = 1, si_rank_after = 1 \<rparr>"

definition final_two_rounds :: agent_state where
  "final_two_rounds =
     \<lparr> original_query = ''q'', current_query = JStr ''q2'', user_id = ''u'', top_k = 5,
       retrieval_mode = ''similarity'',
       retrieved_chunks = [\<lparr> ci_content = ''text'', ci_source = ''a.md'',
                             ci_chunk_id = ''a_0'', ci_score = 0.8 \<rparr>],
       all_sources = [src_a, src_a],
       draft_answer = JStr ''ans'', claims = JArr [JStr ''c''],
       critique_result = need_more_reply,
       decision = JStr ''final'', refined_query = JStr ''q2'', gaps = JArr [JStr ''g''],
       loop_count = 1, max_loops = 2,
       final_answer = JStr ''ans'', confidence = JStr ''high'',
       reasoning_trace = [TraceFinalize ''high''] \<rparr>"

text \<open>A backend with an empty index and no usable model: \<^verbatim>\<open>get_llm()\<close> always raises.\<close>

definition env_no_llm :: agent_env where
  "env_no_llm =
     \<lparr> search_similar_result = (\<lambda>st. []),
       search_mmr_result = (\<lambda>st. []),
       round3 = (\<lambda>x. x),
       get_llm = (\<lambda>n st. Some (ValueError ''missing OPENAI_API_KEY'')),
       llm_invoke = (\<lambda>n st. Inl (BackendError ''unreachable'')),
       json_loads = (\<lambda>s. None) \<rparr>"

text \<open>A state that has already accumulated one source.\<close>

definition st_one_source :: agent_state where
  "st_one_source = (initial_state ''q'' ''u'' 5 ''similarity'' 2) \<lparr> all_sources := [src_a] \<rparr>"

text \<open>
  The one-document backend with a critique reply that \<^verbatim>\<open>json.loads\<close> rejects, and with a
  critique call that raises.
\<close>

definition env_unparseable :: agent_env where
  "env_unparseable =
     env_two_rounds \<lparr> json_loads := (\<lambda>s. if s = ''D'' then Some draft_reply else None) \<rparr>"

definition env_critique_raises :: agent_env where
  "env_critique_raises =
     env_two_rounds \<lparr> llm_invoke := (\<lambda>n st. if n = Draft then Inr ''D''
                                           else Inl (BackendError ''timeout'')) \<rparr>"

text \<open>
  Three retrieved items with maximum score 0.8, all at or above 0.25, and the default
  policy of \<^verbatim>\<open>get_rag_config()\<close>.
\<close>

definition doc_b :: document where
  "doc_b = \<lparr> page_content = ''other'', meta_source = Some ''b.md'', meta_chunk_id = Some ''b_0'' \<rparr>"

definition three_docs :: scored_docs where
  "three_docs = [(doc_a, 0.8), (doc_b, 0.5), (doc_a, 0.3)]"

definition default_config :: rag_config where
  "default_config = \<lparr> min_score = 0.25, min_sources = 1, mmr_lambda = 0.5 \<rparr>"

text \<open>A store whose relevance lookup fails for one text, finds nothing for another.\<close>

definition doc_c :: document where
  "doc_c = \<lparr> page_content = ''third'', meta_source = Some ''c.md'', meta_chunk_id = Some ''c_0'' \<rparr>"

definition vs_flaky :: vectorstore where
  "vs_flaky =
     \<lparr> similarity_search_with_score =
         (\<lambda>q k. if q = ''text'' then Inl (BackendError ''timeout'')
                else if q = ''other'' then Inr []
                else Inr [(doc_c, 0.9)]),
       max_marginal_relevance_search = (\<lambda>q k fetch_k lam. Inr [doc_a, doc_b, doc_c]) \<rparr>"

text \<open>
  The surroundings of the module with an index on disk, and without one; the module
  globals before the first call.
\<close>

definition env_loaded :: store_env where
  "env_loaded =
     \<lparr> get_embeddings = None, chroma_db_exists = True, open_chroma = Inr vs_flaky,
       collection_count = None, embed_query = (\<lambda>q. None) \<rparr>"

definition env_not_built :: store_env where
  "env_not_built = env_loaded \<lparr> chroma_db_exists := False \<rparr>"

definition globals_initial :: store_globals where
  "globals_initial = \<lparr> vectorstore_global = None, is_ready_global = False \<rparr>"

text \<open>A backend whose only hit scores below the threshold, and one that finds nothing.\<close>

definition env_weak_hit :: rag_env where
  "env_weak_hit =
     \<lparr> store_ready = True,
       search_similar_docs = (\<lambda>q k. [(doc_a, 0.1)]),
       search_mmr_docs = (\<lambda>q k fetch_k lam. [(doc_a, 0.1)]),
       get_rag_config = default_config,
       get_profile_prompt = (\<lambda>uid. ''style''),
       format3 = (\<lambda>x. ''0.100''),
       round3_score = (\<lambda>x. x),
       fallback_template = (\<lambda>found_info max_score query_keywords. found_info),
       chain_invoke = (\<lambda>req. Inr ''generated''),
       stream_chat_completion = (\<lambda>req. ([''gen'', ''erated''], None)) \<rparr>"

definition env_no_hit :: rag_env where
  "env_no_hit =
     env_weak_hit \<lparr> search_similar_docs := (\<lambda>q k. []),
                    search_mmr_docs := (\<lambda>q k fetch_k lam. []) \<rparr>"

text \<open>
  A backend whose index returns two documents in round 0 and two in round 1, one of them
  in both rounds at a different rank; the source entries built from them, and the state
  in which the run ends.
\<close>

definition env_three_docs :: agent_env where
  "env_three_docs =
     env_two_rounds \<lparr> search_similar_result :=
                        (\<lambda>st. if loop_count st = 0 then [(doc_a, 0.8), (doc_b, 0.5)]
                              else [(doc_b, 0.5), (doc_c, 0.9)]) \<rparr>"

definition src_b_second :: source_info where
  "src_b_second = \<lparr> si_source = ''b.md'', si_chunk_id = ''b_0'', si_snippet = ''other'',
                     si_score = 0.5, si_rank_before = 2, si_rank_after = 2 \<rparr>"

definition src_b_first :: source_info where
  "src_b_first = \<lparr> si_source = ''b.md'', si_chunk_id = ''b_0'', si_snippet = ''other'',
                    si_score = 0.5, si_rank_before = 1, si_rank_after = 1 \<rparr>"

definition src_c_second :: source_info where
  "src_c_second = \<lparr> si_source = ''c.md'', si_chunk_id = ''c_0'', si_snippet = ''third'',
                     si_score = 0.9, si_rank_before = 2, si_rank_after = 2 \<rparr>"

definition final_three_docs :: agent_state where
  "final_three_docs =
     \<lparr> original_query = ''q'', current_query = JStr ''q2'', user_id = ''u'', top_k = 5,
       retrieval_mode = ''similarity'',
       retrieved_chunks = [\<lparr> ci_content = ''other'', ci_source = ''b.md'',
                             ci_chunk_id = ''b_0'', ci_score = 0.5 \<rparr>,
                           \<lparr> ci_content = ''third'', ci_source = ''c.md'',
                             ci_chunk_id = ''c_0'', ci_score = 0.9 \<rparr>],
       all_sources = [src_a, src_b_second, src_b_first, src_c_second],
       draft_answer = JStr ''ans'', claims = JArr [JStr ''c''],
       critique_result = need_more_reply,
       decision = JStr ''final'', refined_query = JStr ''q2'', gaps = JArr [JStr ''g''],
       loop_count = 1, max_loops = 2,
       final_answer = JStr ''ans'', confidence = JStr ''high'',
       reasoning_trace = [TraceFinalize ''high''] \<rparr>"

text \<open>The surroundings with an index on disk in which embedding the query raises.\<close>

definition env_embed_raises :: store_env where
  "env_embed_raises = env_loaded \<lparr> embed_query := (\<lambda>q. Some (BackendError ''timeout'')) \<rparr>"

section \<open>The forced final decision\<close>

lemma critique_try_decision:
  "critique_try env st = Inr st' \<Longrightarrow> max_loops st - 1 \<le> loop_count st \<Longrightarrow>
   decision st' = JStr ''final''"
  by (auto simp: critique_try_def Let_def split: sum.splits)

lemma critique_node_decision:
  "critique_node env st = Inr st' \<Longrightarrow> max_loops st - 1 \<le> loop_count st \<Longrightarrow>
   decision st' = JStr ''final''"
  by (auto simp: critique_node_def dest: critique_try_decision
           split: if_splits option.splits sum.splits)

lemma should_continue_final:
  "decision st = JStr ''final'' \<Longrightarrow> should_continue st = ''finalize''"
  by (simp add: should_continue_def)

lemma graph_steps_from_finalize:
  "graph_steps i env Finalize st = Inr (Some n', st') \<Longrightarrow> n' = Finalize"
  by (cases i) (auto simp: graph_step_def split: sum.splits)

lemma graph_steps_from_last_critique:
  assumes "max_loops st - 1 \<le> loop_count st"
    and "graph_steps i env Critique st = Inr (Some n', st')"
  shows "n' = Critique \<or> n' = Finalize"
proof (cases i)
  case 0
  with assms(2) show ?thesis by simp
next
  case (Suc j)
  show ?thesis
  proof (cases "critique_node env st")
    case (Inl e)
    with Suc assms(2) show ?thesis by (simp add: graph_step_def)
  next
    case (Inr st1)
    with assms(1) have "should_continue st1 = ''finalize''"
      using critique_node_decision should_continue_final by blast
    with Inr have "graph_step env Critique st = Inr (Some Finalize, st1)"
      by (simp add: graph_step_def)
    with Suc assms(2) have "graph_steps j env Finalize st1 = Inr (Some n', st')"
      by simp
    then show ?thesis using graph_steps_from_finalize by blast
  qed
qed

text \<open>
  C1. Whatever the backend replies, when the round counter has reached
  \<open>max_loops - 1\<close> the critique node leaves the decision \<^verbatim>\<open>final\<close>, the router
  answers \<^verbatim>\<open>finalize\<close>, the graph never moves from critique to refine, and no refine
  or retrieve node is executed from there on.
\<close>

theorem critique_override_at_last_round:
  assumes "max_loops st - 1 \<le> loop_count st"
  shows "(\<forall>st'. critique_node env st = Inr st' \<longrightarrow>
            decision st' = JStr ''final'' \<and> should_continue st' = ''finalize'')
         \<and> (\<forall>st'. graph_step env Critique st \<noteq> Inr (Some Refine, st'))
         \<and> (\<forall>i n' st'. graph_steps i env Critique st = Inr (Some n', st') \<longrightarrow>
               n' \<noteq> Refine \<and> n' \<noteq> Retrieve)"
proof -
  have a: "decision st' = JStr ''final'' \<and> should_continue st' = ''finalize''"
    if "critique_node env st = Inr st'" for st'
    using that assms critique_node_decision should_continue_final by blast
  have b: "graph_step env Critique st \<noteq> Inr (Some Refine, st')" for st'
  proof
    assume g: "graph_step env Critique st = Inr (Some Refine, st')"
    then have "critique_node env st = Inr st'" and "should_continue st' = ''refine''"
      by (auto simp: graph_step_def split: sum.splits if_splits)
    with a show False by fastforce
  qed
  have c: "n' \<noteq> Refine \<and> n' \<noteq> Retrieve"
    if "graph_steps i env Critique st = Inr (Some n', st')" for i n' st'
    using graph_steps_from_last_critique [OF assms that] by auto
  from a b c show ?thesis by blast
qed

theorem critique_override_at_last_round_witness:
  "max_loops st_last_round - 1 \<le> loop_count st_last_round
   \<and> (\<exists>st'. critique_node env_need_more st_last_round = Inr st'
          \<and> decision st' = JStr ''final'' \<and> should_continue st' = ''finalize'')
   \<and> (\<exists>st'. graph_step env_need_more Critique st_last_round = Inr (Some Finalize, st'))"
proof -
  have h: "max_loops st_last_round - 1 \<le> loop_count st_last_round"
    by (simp add: st_last_round_def initial_state_def)
  have c: "\<exists>st'. critique_node env_need_more st_last_round = Inr st'"
    by (simp add: critique_node_def critique_try_def env_need_more_def need_more_reply_def
                  st_last_round_def initial_state_def Let_def)
  then obtain st' where st': "critique_node env_need_more st_last_round = Inr st'" ..
  from critique_override_at_last_round [OF h, of env_need_more] st'
  have d: "decision st' = JStr ''final'' \<and> should_continue st' = ''finalize''"
    by blast
  with st' have "graph_step env_need_more Critique st_last_round = Inr (Some Finalize, st')"
    by (simp add: graph_step_def)
  with h st' d show ?thesis by blast
qed

section \<open>The round counter along a run\<close>

lemma finalize_node_loop:
  "finalize_node env st = Inr st' \<Longrightarrow>
   loop_count st' = loop_count st \<and> max_loops st' = max_loops st"
  by (auto simp: finalize_node_def Let_def split: sum.splits if_splits)

lemma critique_node_need_more:
  assumes "critique_node env st = Inr st'" and "decision st' = JStr ''need_more''"
  shows "loop_count st < max_loops st - 1"
proof (rule ccontr)
  assume "\<not> loop_count st < max_loops st - 1"
  then have "max_loops st - 1 \<le> loop_count st" by simp
  with assms(1) have "decision st' = JStr ''final''" by (rule critique_node_decision)
  with assms(2) show False by simp
qed

lemma graph_step_round_inv:
  assumes "graph_step env n st = Inr (n_opt, st')" and "round_inv n st"
  shows "max_loops st' = max_loops st \<and>
         (case n_opt of Some n' \<Rightarrow> round_inv n' st'
          | None \<Rightarrow> 0 \<le> loop_count st' \<and> loop_count st' \<le> max 0 (max_loops st - 1))"
proof (cases n)
  case Retrieve
  with assms show ?thesis
    by (auto simp: graph_step_def round_inv_def retrieve_node_loop)
next
  case Draft
  with assms obtain "draft_node env st = Inr st'" and "n_opt = Some Critique"
    by (auto simp: graph_step_def split: sum.splits)
  then show ?thesis
    using Draft assms(2) draft_node_loop [of env st st'] by (simp add: round_inv_def)
next
  case Critique
  with assms have c: "critique_node env st = Inr st'"
    and n': "n_opt = Some (if should_continue st' = ''refine'' then Refine else Finalize)"
    by (auto simp: graph_step_def split: sum.splits if_splits)
  from c have eq: "loop_count st' = loop_count st" "max_loops st' = max_loops st"
    using critique_node_loop by blast+
  show ?thesis
  proof (cases "should_continue st' = ''refine''")
    case True
    then have "decision st' = JStr ''need_more''"
      by (simp add: should_continue_refine)
    with c have "loop_count st < max_loops st - 1"
      by (rule critique_node_need_more)
    with True n' eq Critique assms(2) show ?thesis
      by (simp add: round_inv_def)
  next
    case False
    with n' eq Critique assms(2) show ?thesis
      by (simp add: round_inv_def)
  qed
next
  case Refine
  with assms have r: "refine_query_node env st = Inr st'" and n': "n_opt = Some Retrieve"
    by (auto simp: graph_step_def split: sum.splits)
  from r have eq: "loop_count st' = loop_count st + 1" "max_loops st' = max_loops st"
    using refine_query_node_loop by blast+
  with n' Refine assms(2) show ?thesis
    by (simp add: round_inv_def)
next
  case Finalize
  with assms have f: "finalize_node env st = Inr st'" and n': "n_opt = None"
    by (auto simp: graph_step_def split: sum.splits)
  from f have eq: "loop_count st' = loop_count st" "max_loops st' = max_loops st"
    using finalize_node_loop by blast+
  with n' Finalize assms(2) show ?thesis
    by (simp add: round_inv_def)
qed

lemma invoke_from_loop_bound:
  "invoke_from env n st = Inr fs \<Longrightarrow> round_inv n st \<Longrightarrow>
   0 \<le> loop_count fs \<and> loop_count fs \<le> max 0 (max_loops st - 1)"
proof (induction env n st rule: invoke_from.induct)
  case (1 env n st)
  from "1.prems"(1) obtain n_opt st' where g: "graph_step env n st = Inr (n_opt, st')"
    by (subst (asm) invoke_from.simps) (auto split: sum.splits)
  from graph_step_round_inv [OF g "1.prems"(2)]
  have ml: "max_loops st' = max_loops st"
    and nx: "case n_opt of Some n' \<Rightarrow> round_inv n' st'
             | None \<Rightarrow> 0 \<le> loop_count st' \<and> loop_count st' \<le> max 0 (max_loops st - 1)"
    by blast+
  show ?case
  proof (cases n_opt)
    case None
    with g "1.prems"(1) have "fs = st'"
      by (subst (asm) invoke_from.simps) simp
    with nx None show ?thesis by simp
  next
    case (Some n')
    with g "1.prems"(1) have run: "invoke_from env n' st' = Inr fs"
      by (subst (asm) invoke_from.simps) simp
    from nx Some have "round_inv n' st'" by simp
    with "1.IH" [OF g refl, of n'] Some run ml show ?thesis by simp
  qed
qed

lemma initial_round_inv: "round_inv Retrieve (initial_state q u k mode m)"
  by (simp add: round_inv_def initial_state_def)

section \<open>Evaluating runs on concrete backends\<close>

lemma invoke_from_Some:
  "graph_step env n st = Inr (Some n', st') \<Longrightarrow> invoke_from env n st = invoke_from env n' st'"
  by (subst invoke_from.simps) simp

lemma invoke_from_None:
  "graph_step env n st = Inr (None, st') \<Longrightarrow> invoke_from env n st = Inr st'"
  by (subst invoke_from.simps) simp

lemma invoke_from_Inl:
  "graph_step env n st = Inl e \<Longrightarrow> invoke_from env n st = Inl e"
  by (subst invoke_from.simps) simp

lemma extract_json_plain [simp]: "extract_json ''D'' = ''D''" "extract_json ''C'' = ''C''"
  by (simp_all add: extract_json_def FENCE_def)

lemmas ev = graph_step_def retrieve_node_def retrieve_results_def draft_node_def draft_try_def parse_draft_def
  critique_node_def critique_try_def refine_query_node_def finalize_node_def finalize_answer_def
  should_continue_def confidence_map_def chunk_of_def source_of_def truncate_text_def
  Let_def enumerate_eq_zip initial_state_def

lemma run_null_refine:
  "graph_invoke env_null_refine (initial_state ''q'' ''u'' 5 ''similarity'' 2)
   = Inl (TypeError ''object is not subscriptable'')"
  unfolding graph_invoke_def
  apply (subst invoke_from_Some [where n' = Draft], simp add: ev env_null_refine_def env_two_rounds_def doc_a_def  draft_reply_def null_refine_reply_def)
  apply (subst invoke_from_Some [where n' = Critique], simp add: ev env_null_refine_def env_two_rounds_def doc_a_def draft_reply_def null_refine_reply_def)
  apply (subst invoke_from_Some [where n' = Refine], simp add: ev env_null_refine_def env_two_rounds_def doc_a_def draft_reply_def null_refine_reply_def)
  apply (rule invoke_from_Inl, simp add: ev env_null_refine_def env_two_rounds_def doc_a_def draft_reply_def null_refine_reply_def)
  done

lemmas ex_defs = env_null_refine_def env_two_rounds_def env_need_more_def doc_a_def draft_reply_def
  null_refine_reply_def need_more_reply_def

lemma run_two_rounds:
  "graph_invoke env_two_rounds (initial_state ''q'' ''u'' 5 ''similarity'' 2) = Inr final_two_rounds"
  unfolding graph_invoke_def
  apply (subst invoke_from_Some [where n' = Draft], simp add: ev ex_defs)
  apply (subst invoke_from_Some [where n' = Critique], simp add: ev ex_defs)
  apply (subst invoke_from_Some [where n' = Refine], simp add: ev ex_defs)
  apply (subst invoke_from_Some [where n' = Retrieve], simp add: ev ex_defs)
  apply (subst invoke_from_Some [where n' = Draft], simp add: ev ex_defs)
  apply (subst invoke_from_Some [where n' = Critique], simp add: ev ex_defs)
  apply (subst invoke_from_Some [where n' = Finalize], simp add: ev ex_defs)
  apply (rule invoke_from_None, simp add: ev ex_defs final_two_rounds_def src_a_def)
  done

lemmas ex3_defs = env_three_docs_def doc_b_def doc_c_def

lemma run_three_docs:
  "graph_invoke env_three_docs (initial_state ''q'' ''u'' 5 ''similarity'' 2) = Inr final_three_docs"
  unfolding graph_invoke_def
  apply (subst invoke_from_Some [where n' = Draft], simp add: ev ex_defs ex3_defs)
  apply (subst invoke_from_Some [where n' = Critique], simp add: ev ex_defs ex3_defs)
  apply (subst invoke_from_Some [where n' = Refine], simp add: ev ex_defs ex3_defs)
  apply (subst invoke_from_Some [where n' = Retrieve], simp add: ev ex_defs ex3_defs)
  apply (subst invoke_from_Some [where n' = Draft], simp add: ev ex_defs ex3_defs)
  apply (subst invoke_from_Some [where n' = Critique], simp add: ev ex_defs ex3_defs)
  apply (subst invoke_from_Some [where n' = Finalize], simp add: ev ex_defs ex3_defs)
  apply (rule invoke_from_None, simp add: ev ex_defs ex3_defs final_three_docs_def src_a_def
           src_b_first_def src_b_second_def src_c_second_def)
  done

section \<open>Removing duplicate sources\<close>

lemma dedup_loop_first_seen:
  "dedup_loop seen acc xs = acc @ first_seen_spec (filter (\<lambda>t. source_key t \<notin> seen) xs)"
proof (induction xs arbitrary: seen acc)
  case Nil
  show ?case by simp
next
  case (Cons s rest)
  have f: "filter (\<lambda>t. source_key t \<noteq> source_key s \<and> source_key t \<notin> seen) rest
           = filter (\<lambda>t. source_key t \<noteq> source_key s) (filter (\<lambda>t. source_key t \<notin> seen) rest)"
    by (induction rest) auto
  show ?case
    by (simp add: Let_def Cons.IH f del: filter_filter)
qed

lemma dedup_sources_first_seen: "dedup_sources xs = first_seen_spec xs"
  by (simp add: dedup_sources_def dedup_loop_first_seen)

lemma first_seen_set: "set (first_seen_spec xs) \<subseteq> set xs"
  by (induction xs rule: first_seen_spec.induct) auto

lemma first_seen_keys: "source_key ` set (first_seen_spec xs) = source_key ` set xs"
  by (induction xs rule: first_seen_spec.induct) auto

lemma first_seen_distinct: "distinct (map source_key (first_seen_spec xs))"
proof (induction xs rule: first_seen_spec.induct)
  case 1
  show ?case by simp
next
  case (2 s rest)
  have "source_key s \<notin> source_key ` set (first_seen_spec (filter (\<lambda>t. source_key t \<noteq> source_key s) rest))"
    using first_seen_set [of "filter (\<lambda>t. source_key t \<noteq> source_key s) rest"] by auto
  with 2 show ?case by simp
qed

lemma first_seen_subseq: "subseq (first_seen_spec xs) xs"
proof (induction xs rule: first_seen_spec.induct)
  case 1
  show ?case by simp
next
  case (2 s rest)
  have "subseq (filter (\<lambda>t. source_key t \<noteq> source_key s) rest) rest"
    by simp
  with 2 have "subseq (first_seen_spec (filter (\<lambda>t. source_key t \<noteq> source_key s) rest)) rest"
    using subseq_order.order_trans by blast
  then show ?case by simp
qed

lemma find_filter_implied:
  "(\<And>t. P t \<Longrightarrow> Q t) \<Longrightarrow> find P (filter Q xs) = find P xs"
  by (induction xs) auto

lemma first_seen_find:
  "s \<in> set (first_seen_spec xs) \<Longrightarrow> find (\<lambda>t. source_key t = source_key s) xs = Some s"
proof (induction xs rule: first_seen_spec.induct)
  case 1
  then show ?case by simp
next
  case (2 x rest)
  show ?case
  proof (cases "s = x")
    case True
    then show ?thesis by simp
  next
    case False
    with "2.prems" have m: "s \<in> set (first_seen_spec (filter (\<lambda>t. source_key t \<noteq> source_key x) rest))"
      by simp
    then have "s \<in> set (filter (\<lambda>t. source_key t \<noteq> source_key x) rest)"
      using first_seen_set by blast
    then have ne: "source_key s \<noteq> source_key x" by simp
    from "2.IH" [OF m]
    have "find (\<lambda>t. source_key t = source_key s)
            (filter (\<lambda>t. source_key t \<noteq> source_key x) rest) = Some s" .
    moreover have "find (\<lambda>t. source_key t = source_key s)
            (filter (\<lambda>t. source_key t \<noteq> source_key x) rest)
          = find (\<lambda>t. source_key t = source_key s) rest"
      using ne by (intro find_filter_implied) auto
    ultimately show ?thesis using ne by auto
  qed
qed

lemma source_key_fun: "source_key = (\<lambda>s. (si_source s, si_chunk_id s))"
  by (rule ext) (simp add: source_key_def)

lemma source_key_eq_iff:
  "source_key t = source_key s \<longleftrightarrow> si_source t = si_source s \<and> si_chunk_id t = si_chunk_id s"
  by (simp add: source_key_def)

section \<open>A run whose first retrieval finds nothing\<close>

lemma run_no_results:
  assumes "retrieve_results env (initial_state question uid k mode max_l) = []"
  shows "graph_invoke env (initial_state question uid k mode max_l)
         = Inr ((initial_state question uid k mode max_l)
                 \<lparr> draft_answer := JStr DRAFT_NOT_FOUND,
                   critique_result :=
                     JObj [(''decision'', JStr ''final''), (''confidence'', JStr ''medium'')],
                   decision := JStr ''final'',
                   final_answer := JStr DRAFT_NOT_FOUND,
                   reasoning_trace := [TraceFinalize ''medium''] \<rparr>)"
proof -
  let ?i = "initial_state question uid k mode max_l"
  let ?s1 = "retrieve_node env ?i"
  have s1: "?s1 = ?i \<lparr> reasoning_trace := [TraceRetrieve (JStr question) 0 0] \<rparr>"
    using assms by (simp add: retrieve_node_def initial_state_def)
  show ?thesis
    unfolding graph_invoke_def
    apply (subst invoke_from_Some [where n' = Draft and st' = ?s1], simp add: graph_step_def)
    apply (subst s1)
    apply (subst invoke_from_Some [where n' = Critique], simp add: ev)
    apply (subst invoke_from_Some [where n' = Finalize], simp add: ev)
    apply (rule invoke_from_None, simp add: ev)
    done
qed

section \<open>Bounds on the number of loops reported\<close>

text \<open>
  C2 (as amended). When the workflow completes, the reported \<open>loops_used\<close> is at least
  1 and at most \<open>max 1 max_loops\<close>, hence at most \<open>max_loops + 1\<close> whenever
  \<open>max_loops\<close> is not negative. When the workflow raises, the handler of
  \<^verbatim>\<open>agentic_rag_query\<close> reports \<open>loops_used = 0\<close>.

  The claim as stated also covers the runs that raise and every integer \<open>max_loops\<close>;
  it fails on a run that raises (the critique asks for more with a \<^verbatim>\<open>null\<close> refined
  query, and the slice in \<^verbatim>\<open>refine_query_node\<close> raises), and on \<open>max_loops = -1\<close>.
\<close>

theorem loops_used_bounds:
  "(\<forall>fs. graph_invoke env (initial_state question uid k mode max_l) = Inr fs \<longrightarrow>
      1 \<le> loops_used (agentic_rag_query env question uid k mode max_l)
    \<and> loops_used (agentic_rag_query env question uid k mode max_l) \<le> max 1 max_l
    \<and> (0 \<le> max_l \<longrightarrow>
          loops_used (agentic_rag_query env question uid k mode max_l) \<le> max_l + 1))
   \<and> (\<forall>e. graph_invoke env (initial_state question uid k mode max_l) = Inl e \<longrightarrow>
      loops_used (agentic_rag_query env question uid k mode max_l) = 0)"
proof -
  have "0 \<le> loop_count fs \<and> loop_count fs \<le> max 0 (max_l - 1)"
    if "graph_invoke env (initial_state question uid k mode max_l) = Inr fs" for fs
    using invoke_from_loop_bound [OF that [unfolded graph_invoke_def] initial_round_inv]
    by (simp add: initial_state_def)
  then show ?thesis
    by (auto simp: agentic_rag_query_def)
qed

theorem loops_used_bounds_witness:
  "graph_invoke env_two_rounds (initial_state ''q'' ''u'' 5 ''similarity'' 2) = Inr final_two_rounds
   \<and> loops_used (agentic_rag_query env_two_rounds ''q'' ''u'' 5 ''similarity'' 2) = 2
   \<and> (0::int) \<le> 2
   \<and> graph_invoke env_null_refine (initial_state ''q'' ''u'' 5 ''similarity'' 2)
       = Inl (TypeError ''object is not subscriptable'')
   \<and> loops_used (agentic_rag_query env_null_refine ''q'' ''u'' 5 ''similarity'' 2) = 0"
  using loops_used_bounds [of env_two_rounds "''q''" "''u''" 5 "''similarity''" 2]
        loops_used_bounds [of env_null_refine "''q''" "''u''" 5 "''similarity''" 2]
  by (simp add: run_two_rounds run_null_refine agentic_rag_query_def final_two_rounds_def)

theorem loops_used_counterexample:
  "\<not> (1 \<le> loops_used (agentic_rag_query env_null_refine ''q'' ''u'' 5 ''similarity'' 2))
   \<and> \<not> (loops_used (agentic_rag_query env_need_more ''q'' ''u'' 5 ''similarity'' (- 1)) \<le> - 1 + 1)"
proof -
  have a: "loops_used (agentic_rag_query env_null_refine ''q'' ''u'' 5 ''similarity'' 2) = 0"
    by (simp add: agentic_rag_query_def run_null_refine)
  have "retrieve_results env_need_more (initial_state ''q'' ''u'' 5 ''similarity'' (- 1)) = []"
    by (simp add: retrieve_results_def env_need_more_def)
  then have b: "loops_used (agentic_rag_query env_need_more ''q'' ''u'' 5 ''similarity'' (- 1)) = 1"
    by (simp add: agentic_rag_query_def run_no_results) (simp add: initial_state_def)
  from a b show ?thesis by simp
qed

section \<open>Empty retrieval in the first round\<close>

text \<open>
  C5 (as amended). If retrieval in round 0 returns no results and \<open>max_loops = 2\<close>, the
  agentic run returns \<open>loops_used = 1\<close>, the fixed answer of \<^verbatim>\<open>draft_node\<close> for an empty
  chunk list (no generation is invoked: the result is the same for every model backend,
  also for one that always raises), no sources, and confidence \<^verbatim>\<open>medium\<close>: the draft
  has no claims, and \<^verbatim>\<open>critique_node\<close> answers an empty claim list with
  \<^verbatim>\<open>final\<close> and \<^verbatim>\<open>medium\<close>. The claim says \<^verbatim>\<open>low\<close>.
\<close>

theorem empty_retrieval_response:
  assumes "retrieve_results env (initial_state question uid k mode 2) = []"
  shows "loops_used (agentic_rag_query env question uid k mode 2) = 1
       \<and> response_confidence (agentic_rag_query env question uid k mode 2) = JStr (level_value MEDIUM)
       \<and> answer (agentic_rag_query env question uid k mode 2) = JStr DRAFT_NOT_FOUND
       \<and> sources (agentic_rag_query env question uid k mode 2) = []"
  by (simp add: agentic_rag_query_def run_no_results [OF assms] dedup_sources_def)
     (simp add: initial_state_def)

theorem empty_retrieval_response_witness:
  "retrieve_results env_no_llm (initial_state ''q'' ''u'' 5 ''mmr'' 2) = []
   \<and> loops_used (agentic_rag_query env_no_llm ''q'' ''u'' 5 ''mmr'' 2) = 1
   \<and> response_confidence (agentic_rag_query env_no_llm ''q'' ''u'' 5 ''mmr'' 2) = JStr ''medium''
   \<and> answer (agentic_rag_query env_no_llm ''q'' ''u'' 5 ''mmr'' 2) = JStr DRAFT_NOT_FOUND"
proof -
  have h: "retrieve_results env_no_llm (initial_state ''q'' ''u'' 5 ''mmr'' 2) = []"
    by (simp add: retrieve_results_def env_no_llm_def)
  from empty_retrieval_response [OF h] h show ?thesis by simp
qed

theorem empty_retrieval_counterexample:
  "retrieve_results env_need_more (initial_state ''q'' ''u'' 5 ''similarity'' 2) = []
   \<and> response_confidence (agentic_rag_query env_need_more ''q'' ''u'' 5 ''similarity'' 2)
       \<noteq> JStr (level_value LOW)"
proof -
  have h: "retrieve_results env_need_more (initial_state ''q'' ''u'' 5 ''similarity'' 2) = []"
    by (simp add: retrieve_results_def env_need_more_def)
  have "response_confidence (agentic_rag_query env_need_more ''q'' ''u'' 5 ''similarity'' 2)
        = JStr ''medium''"
    by (simp add: agentic_rag_query_def run_no_results [OF h]) (simp add: initial_state_def)
  with h show ?thesis by simp
qed

section \<open>Sources of the response\<close>

text \<open>
  C7. The sources of the response of the agentic run hold no two entries with
  the same \<open>(source, chunk_id)\<close> pair. When the workflow completes they are a
  subsequence of the accumulated sources (the order is kept), every \<open>(source, chunk_id)\<close>
  pair of the accumulated sources occurs among them, and each of them is the first
  accumulated entry with its source and chunk id. When the workflow raises the list is
  empty.
\<close>

theorem sources_deduplicated:
  "distinct (map (\<lambda>s. (si_source s, si_chunk_id s))
               (sources (agentic_rag_query env question uid k mode max_l)))
   \<and> (\<forall>fs. graph_invoke env (initial_state question uid k mode max_l) = Inr fs \<longrightarrow>
         subseq (sources (agentic_rag_query env question uid k mode max_l)) (all_sources fs)
       \<and> (\<lambda>s. (si_source s, si_chunk_id s))
            ` set (sources (agentic_rag_query env question uid k mode max_l))
           = (\<lambda>s. (si_source s, si_chunk_id s)) ` set (all_sources fs)
       \<and> (\<forall>s \<in> set (sources (agentic_rag_query env question uid k mode max_l)).
             find (\<lambda>t. si_source t = si_source s \<and> si_chunk_id t = si_chunk_id s)
               (all_sources fs) = Some s))"
proof -
  let ?r = "sources (agentic_rag_query env question uid k mode max_l)"
  have a: "distinct (map (\<lambda>s. (si_source s, si_chunk_id s)) ?r)"
    using first_seen_distinct
    by (simp add: agentic_rag_query_def dedup_sources_first_seen source_key_fun
             split: sum.splits)
  have b: "subseq ?r (all_sources fs)
       \<and> (\<lambda>s. (si_source s, si_chunk_id s)) ` set ?r
           = (\<lambda>s. (si_source s, si_chunk_id s)) ` set (all_sources fs)
       \<and> (\<forall>s \<in> set ?r.
             find (\<lambda>t. si_source t = si_source s \<and> si_chunk_id t = si_chunk_id s)
               (all_sources fs) = Some s)"
    if run: "graph_invoke env (initial_state question uid k mode max_l) = Inr fs" for fs
  proof -
    from run have r: "?r = first_seen_spec (all_sources fs)"
      by (simp add: agentic_rag_query_def dedup_sources_first_seen)
    have "subseq ?r (all_sources fs)"
      by (simp add: r first_seen_subseq)
    moreover have "(\<lambda>s. (si_source s, si_chunk_id s)) ` set ?r
           = (\<lambda>s. (si_source s, si_chunk_id s)) ` set (all_sources fs)"
      using first_seen_keys [of "all_sources fs"] by (simp add: r source_key_fun)
    moreover have "find (\<lambda>t. si_source t = si_source s \<and> si_chunk_id t = si_chunk_id s)
               (all_sources fs) = Some s" if "s \<in> set ?r" for s
      using first_seen_find [of s "all_sources fs"] that
      by (simp add: r source_key_eq_iff)
    ultimately show ?thesis by blast
  qed
  from a b show ?thesis by blast
qed

theorem sources_deduplicated_witness:
  "graph_invoke env_three_docs (initial_state ''q'' ''u'' 5 ''similarity'' 2) = Inr final_three_docs
   \<and> all_sources final_three_docs = [src_a, src_b_second, src_b_first, src_c_second]
   \<and> sources (agentic_rag_query env_three_docs ''q'' ''u'' 5 ''similarity'' 2)
       = [src_a, src_b_second, src_c_second]
   \<and> map (\<lambda>s. (si_source s, si_chunk_id s))
        (sources (agentic_rag_query env_three_docs ''q'' ''u'' 5 ''similarity'' 2))
       = [(''a.md'', ''a_0''), (''b.md'', ''b_0''), (''c.md'', ''c_0'')]
   \<and> distinct (map (\<lambda>s. (si_source s, si_chunk_id s))
        (sources (agentic_rag_query env_three_docs ''q'' ''u'' 5 ''similarity'' 2)))
   \<and> find (\<lambda>t. si_source t = si_source src_b_second \<and> si_chunk_id t = si_chunk_id src_b_second)
        (all_sources final_three_docs) = Some src_b_second"
proof -
  have r: "sources (agentic_rag_query env_three_docs ''q'' ''u'' 5 ''similarity'' 2)
           = [src_a, src_b_second, src_c_second]"
    by (simp add: agentic_rag_query_def run_three_docs final_three_docs_def dedup_sources_def
                  Let_def source_key_def src_a_def src_b_first_def src_b_second_def
                  src_c_second_def)
  have k: "map (\<lambda>s. (si_source s, si_chunk_id s)) [src_a, src_b_second, src_c_second]
           = [(''a.md'', ''a_0''), (''b.md'', ''b_0''), (''c.md'', ''c_0'')]"
    by (simp add: src_a_def src_b_second_def src_c_second_def)
  have m: "src_b_second \<in> set (sources (agentic_rag_query env_three_docs ''q'' ''u'' 5 ''similarity'' 2))"
    by (simp add: r)
  from sources_deduplicated [of env_three_docs "''q''" "''u''" 5 "''similarity''" 2]
       run_three_docs m
  have "distinct (map (\<lambda>s. (si_source s, si_chunk_id s))
          (sources (agentic_rag_query env_three_docs ''q'' ''u'' 5 ''similarity'' 2)))"
    and "find (\<lambda>t. si_source t = si_source src_b_second \<and> si_chunk_id t = si_chunk_id src_b_second)
          (all_sources final_three_docs) = Some src_b_second"
    by blast+
  with run_three_docs r k show ?thesis
    by (simp add: final_three_docs_def)
qed

section \<open>The accumulated sources only grow\<close>

lemma retrieve_node_sources:
  "all_sources (retrieve_node env st) = all_sources st @ new_sources env st"
  by (simp add: retrieve_node_def new_sources_def Let_def)

lemma draft_node_sources:
  "draft_node env st = Inr st' \<Longrightarrow> all_sources st' = all_sources st"
  by (auto simp: draft_node_def draft_try_def
           split: if_splits option.splits sum.splits prod.splits)

lemma critique_try_sources:
  "critique_try env st = Inr st' \<Longrightarrow> all_sources st' = all_sources st"
  by (auto simp: critique_try_def Let_def split: sum.splits)

lemma critique_node_sources:
  "critique_node env st = Inr st' \<Longrightarrow> all_sources st' = all_sources st"
  by (auto simp: critique_node_def dest: critique_try_sources
           split: if_splits option.splits sum.splits)

lemma refine_query_node_sources:
  "refine_query_node env st = Inr st' \<Longrightarrow> all_sources st' = all_sources st"
  by (auto simp: refine_query_node_def Let_def split: sum.splits)

lemma finalize_node_sources:
  "finalize_node env st = Inr st' \<Longrightarrow> all_sources st' = all_sources st"
  by (auto simp: finalize_node_def Let_def split: sum.splits if_splits)

lemma graph_step_sources:
  assumes "graph_step env n st = Inr (n_opt, st')"
  shows "all_sources st' = all_sources st @ (if n = Retrieve then new_sources env st else [])"
proof (cases n)
  case Retrieve
  with assms show ?thesis
    by (auto simp: graph_step_def retrieve_node_sources)
next
  case Draft
  with assms show ?thesis
    by (auto simp: graph_step_def draft_node_sources split: sum.splits)
next
  case Critique
  with assms show ?thesis
    by (auto simp: graph_step_def critique_node_sources split: sum.splits)
next
  case Refine
  with assms show ?thesis
    by (auto simp: graph_step_def refine_query_node_sources split: sum.splits)
next
  case Finalize
  with assms show ?thesis
    by (auto simp: graph_step_def finalize_node_sources split: sum.splits)
qed

lemma graph_steps_sources:
  "graph_steps i env n st = Inr (n_opt, st') \<Longrightarrow> prefix (all_sources st) (all_sources st')"
proof (induction i arbitrary: n st)
  case 0
  then show ?case by simp
next
  case (Suc i)
  from Suc.prems obtain m_opt st1 where g: "graph_step env n st = Inr (m_opt, st1)"
    by (auto split: sum.splits)
  then have p: "prefix (all_sources st) (all_sources st1)"
    using graph_step_sources by fastforce
  show ?case
  proof (cases m_opt)
    case None
    with g Suc.prems p show ?thesis by simp
  next
    case (Some m)
    with g Suc.prems have "graph_steps i env m st1 = Inr (n_opt, st')" by simp
    then have "prefix (all_sources st1) (all_sources st')" by (rule Suc.IH)
    with p show ?thesis by (rule prefix_order.trans)
  qed
qed

text \<open>
  C8. Every node execution leaves \<^verbatim>\<open>all_sources\<close> unchanged, except the retrieve
  node, which appends the sources built from its results; nothing is removed or
  deduplicated. Hence after any number of node executions the earlier list is a prefix of
  the later one, and a later critique step still sees the evidence of earlier rounds.
\<close>

theorem all_sources_only_grows:
  "(\<forall>n_opt st'. graph_step env n st = Inr (n_opt, st') \<longrightarrow>
      all_sources st' = all_sources st @ (if n = Retrieve then new_sources env st else []))
   \<and> (\<forall>i n_opt st'. graph_steps i env n st = Inr (n_opt, st') \<longrightarrow>
      prefix (all_sources st) (all_sources st'))"
  using graph_step_sources graph_steps_sources by blast

theorem all_sources_only_grows_witness:
  "graph_step env_two_rounds Retrieve st_one_source
     = Inr (Some Draft, retrieve_node env_two_rounds st_one_source)
   \<and> all_sources st_one_source = [src_a]
   \<and> all_sources (retrieve_node env_two_rounds st_one_source) = [src_a, src_a]
   \<and> graph_steps 1 env_two_rounds Retrieve st_one_source
     = Inr (Some Draft, retrieve_node env_two_rounds st_one_source)
   \<and> prefix (all_sources st_one_source)
        (all_sources (retrieve_node env_two_rounds st_one_source))"
proof -
  let ?st' = "retrieve_node env_two_rounds st_one_source"
  have a: "graph_step env_two_rounds Retrieve st_one_source = Inr (Some Draft, ?st')"
    by (simp add: graph_step_def)
  have b: "graph_steps 1 env_two_rounds Retrieve st_one_source = Inr (Some Draft, ?st')"
    by (simp add: a)
  have n: "new_sources env_two_rounds st_one_source = [src_a]"
    by (simp add: new_sources_def retrieve_results_def source_of_def chunk_of_def
                  truncate_text_def enumerate_eq_zip env_two_rounds_def doc_a_def
                  st_one_source_def initial_state_def src_a_def)
  have s: "all_sources st_one_source = [src_a]"
    by (simp add: st_one_source_def)
  from all_sources_only_grows [of env_two_rounds Retrieve st_one_source]
  have c: "all_sources ?st' = all_sources st_one_source @ new_sources env_two_rounds st_one_source"
    and d: "prefix (all_sources st_one_source) (all_sources ?st')"
    using a b by (fastforce, blast)
  from a b c d n s show ?thesis by simp
qed

section \<open>A failing critique step\<close>

lemma critique_except_fail_safe:
  assumes "py_truthy (claims st)" and "get_llm env Critique st = None"
    and "critique_try env st = Inl e"
  shows "fail_safe_round env st ''low''"
  using assms
  by (simp add: fail_safe_round_def critique_node_def graph_step_def should_continue_def
                finalize_node_def finalize_answer_def confidence_map_def)

lemma critique_decode_error_fail_safe:
  assumes "py_truthy (claims st)" and "get_llm env Critique st = None"
    and "llm_invoke env Critique st = Inr c" and "json_loads env (extract_json c) = None"
  shows "fail_safe_round env st ''medium''"
proof -
  have "critique_try env st =
          Inr (st\<lparr> critique_result := critique_parse_default, decision := JStr ''final'',
                   refined_query := JNull, gaps := JArr [], confidence := JStr ''medium'',
                   reasoning_trace := [TraceCritique (JStr ''final'') (JStr ''medium'') 0 JNull] \<rparr>)"
    using assms(3,4) by (simp add: critique_try_def critique_parse_default_def Let_def)
  with assms(1,2) show ?thesis
    by (simp add: fail_safe_round_def critique_node_def graph_step_def should_continue_def
                  finalize_node_def finalize_answer_def confidence_map_def)
qed

lemma dict_get_not_object:
  "(\<And>kvs. r \<noteq> JObj kvs) \<Longrightarrow> \<exists>e. dict_get r k d = Inl e"
  by (cases r) auto

text \<open>
  C4 (as amended). In a round where the critique call is made (the claim list is not
  empty and the model client is available): when the call raises, or when its output
  parses to something that is not a JSON object, the round is treated as decision
  \<^verbatim>\<open>final\<close> with confidence \<^verbatim>\<open>low\<close>; when the output is not parseable as JSON
  (\<^verbatim>\<open>JSONDecodeError\<close>), the round is treated as decision \<^verbatim>\<open>final\<close> with confidence
  \<^verbatim>\<open>medium\<close>, the values of the dict that \<^verbatim>\<open>critique_node\<close> substitutes for the reply.
  In each case the node returns normally, the graph goes to finalize (no further loop),
  and finalize returns the draft answer with that confidence.
\<close>

theorem critique_failure_fail_safe:
  assumes "py_truthy (claims st)" and "get_llm env Critique st = None"
  shows "(\<forall>e. llm_invoke env Critique st = Inl e \<longrightarrow> fail_safe_round env st ''low'')
       \<and> (\<forall>c r. llm_invoke env Critique st = Inr c \<longrightarrow>
                 json_loads env (extract_json c) = Some r \<longrightarrow> (\<forall>kvs. r \<noteq> JObj kvs) \<longrightarrow>
                 fail_safe_round env st ''low'')
       \<and> (\<forall>c. llm_invoke env Critique st = Inr c \<longrightarrow>
               json_loads env (extract_json c) = None \<longrightarrow>
               fail_safe_round env st ''medium'')"
proof (intro conjI allI impI)
  fix e assume "llm_invoke env Critique st = Inl e"
  then have "critique_try env st = Inl e"
    by (simp add: critique_try_def)
  with assms show "fail_safe_round env st ''low''"
    by (rule critique_except_fail_safe)
next
  fix c r
  assume c: "llm_invoke env Critique st = Inr c"
    and r: "json_loads env (extract_json c) = Some r" and n: "\<forall>kvs. r \<noteq> JObj kvs"
  from n obtain e where "dict_get r ''decision'' (JStr ''final'') = Inl e"
    using dict_get_not_object by blast
  with c r have "critique_try env st = Inl e"
    by (simp add: critique_try_def)
  with assms show "fail_safe_round env st ''low''"
    by (rule critique_except_fail_safe)
next
  fix c
  assume "llm_invoke env Critique st = Inr c" and "json_loads env (extract_json c) = None"
  with assms show "fail_safe_round env st ''medium''"
    by (rule critique_decode_error_fail_safe)
qed

theorem critique_failure_fail_safe_witness:
  "py_truthy (claims st_last_round)
   \<and> get_llm env_critique_raises Critique st_last_round = None
   \<and> llm_invoke env_critique_raises Critique st_last_round = Inl (BackendError ''timeout'')
   \<and> fail_safe_round env_critique_raises st_last_round ''low''
   \<and> get_llm env_unparseable Critique st_last_round = None
   \<and> llm_invoke env_unparseable Critique st_last_round = Inr ''C''
   \<and> json_loads env_unparseable (extract_json ''C'') = None
   \<and> fail_safe_round env_unparseable st_last_round ''medium''"
proof -
  have a: "py_truthy (claims st_last_round)"
    by (simp add: st_last_round_def)
  have b: "get_llm env_critique_raises Critique st_last_round = None"
    "get_llm env_unparseable Critique st_last_round = None"
    by (simp_all add: env_critique_raises_def env_unparseable_def env_two_rounds_def)
  have c: "llm_invoke env_critique_raises Critique st_last_round = Inl (BackendError ''timeout'')"
    "llm_invoke env_unparseable Critique st_last_round = Inr ''C''"
    "json_loads env_unparseable (extract_json ''C'') = None"
    by (simp_all add: env_critique_raises_def env_unparseable_def env_two_rounds_def)
  from critique_failure_fail_safe [OF a b(1)] critique_failure_fail_safe [OF a b(2)] a b c
  show ?thesis by blast
qed

theorem critique_unparseable_counterexample:
  "llm_invoke env_unparseable Critique st_last_round = Inr ''C''
   \<and> json_loads env_unparseable (extract_json ''C'') = None
   \<and> fail_safe_round env_unparseable st_last_round ''medium''
   \<and> \<not> fail_safe_round env_unparseable st_last_round ''low''"
  by (simp add: fail_safe_round_def ev ex_defs env_unparseable_def st_last_round_def
                critique_parse_default_def)

section \<open>Properties of the confidence evaluator\<close>

lemma max_score_of_Max: "docs \<noteq> [] \<Longrightarrow> max_score_of docs = Max (snd ` set docs)"
proof -
  assume "docs \<noteq> []"
  then obtain d ds where "docs = d # ds" by (cases docs) auto
  then show ?thesis
    by (simp add: max_score_of_def Max.set_eq_fold [symmetric])
qed

lemma calculate_confidence_nonempty:
  assumes "docs \<noteq> []"
  shows "calculate_confidence docs config =
           (let max_score = Max (snd ` set docs);
                valid_count = int (length (filter (\<lambda>(doc, sc). sc \<ge> min_score config) docs));
                needs_fallback = (max_score < min_score config \<or> valid_count < min_sources config)
            in (if needs_fallback then LOW
                else if max_score \<ge> 0.7 \<and> valid_count \<ge> 3 then HIGH
                else MEDIUM,
                needs_fallback))"
  using assms
  by (simp add: calculate_confidence_def Let_def max_score_of_Max valid_sources_of_def)

lemma three_docs_facts:
  "three_docs \<noteq> []" "Max (snd ` set three_docs) = 0.8"
  "int (length (filter (\<lambda>(doc, sc). sc \<ge> 0.25) three_docs)) = 3"
  by (simp_all add: three_docs_def)

text \<open>
  C3 (as amended). Empty evidence yields \<open>(LOW, True)\<close>. Otherwise, with
  \<open>max_score\<close> the maximum score and \<open>valid_count\<close> the number of items with score at
  least \<open>min_score\<close>, \<open>needs_fallback\<close> is
  \<open>max_score < min_score \<or> valid_count < min_sources\<close>; the level is \<open>LOW\<close> if
  \<open>needs_fallback\<close>, else \<open>HIGH\<close> exactly when \<open>max_score \<ge> 0.7\<close> and
  \<open>valid_count \<ge> 3\<close>, else \<open>MEDIUM\<close>. In particular evidence with
  \<open>max_score = 0.8\<close> and 3 items at or above \<open>min_score = 0.25\<close> yields
  \<open>(HIGH, False)\<close> provided \<open>min_sources \<le> 3\<close> (the default is 1); with a larger
  \<open>min_sources\<close> the same evidence yields \<open>(LOW, True)\<close>.
\<close>

theorem calculate_confidence_rule:
  "(docs = [] \<longrightarrow> calculate_confidence docs config = (LOW, True))
   \<and> (docs \<noteq> [] \<longrightarrow>
        (let max_score = Max (snd ` set docs);
             valid_count = int (length (filter (\<lambda>(doc, sc). sc \<ge> min_score config) docs));
             needs_fallback = (max_score < min_score config \<or> valid_count < min_sources config)
         in calculate_confidence docs config =
              (if needs_fallback then LOW
               else if max_score \<ge> 0.7 \<and> valid_count \<ge> 3 then HIGH
               else MEDIUM,
               needs_fallback)))
   \<and> (docs \<noteq> [] \<longrightarrow> Max (snd ` set docs) = 0.8 \<longrightarrow>
        int (length (filter (\<lambda>(doc, sc). sc \<ge> min_score config) docs)) = 3 \<longrightarrow>
        min_score config = 0.25 \<longrightarrow> min_sources config \<le> 3 \<longrightarrow>
        calculate_confidence docs config = (HIGH, False))"
proof (intro conjI impI)
  assume "docs = []"
  then show "calculate_confidence docs config = (LOW, True)"
    by (simp add: calculate_confidence_def)
next
  assume "docs \<noteq> []"
  then show "let max_score = Max (snd ` set docs);
                 valid_count = int (length (filter (\<lambda>(doc, sc). sc \<ge> min_score config) docs));
                 needs_fallback = (max_score < min_score config \<or> valid_count < min_sources config)
             in calculate_confidence docs config =
                  (if needs_fallback then LOW
                   else if max_score \<ge> 0.7 \<and> valid_count \<ge> 3 then HIGH
                   else MEDIUM,
                   needs_fallback)"
    by (simp add: calculate_confidence_nonempty Let_def)
next
  assume ne: "docs \<noteq> []" and m: "Max (snd ` set docs) = 0.8"
    and v: "int (length (filter (\<lambda>(doc, sc). sc \<ge> min_score config) docs)) = 3"
    and ms: "min_score config = 0.25" and mn: "min_sources config \<le> 3"
  have "\<not> (Max (snd ` set docs) < min_score config)"
    by (simp add: m ms)
  moreover have "\<not> (int (length (filter (\<lambda>(doc, sc). sc \<ge> min_score config) docs))
                    < min_sources config)"
    using v mn by linarith
  moreover have "Max (snd ` set docs) \<ge> 0.7"
    by (simp add: m)
  ultimately show "calculate_confidence docs config = (HIGH, False)"
    using v by (simp add: calculate_confidence_nonempty [OF ne] Let_def)
qed

theorem calculate_confidence_rule_witness:
  "three_docs \<noteq> [] \<and> Max (snd ` set three_docs) = 0.8
   \<and> int (length (filter (\<lambda>(doc, sc). sc \<ge> min_score default_config) three_docs)) = 3
   \<and> min_score default_config = 0.25 \<and> min_sources default_config \<le> 3
   \<and> calculate_confidence three_docs default_config = (HIGH, False)
   \<and> calculate_confidence [] default_config = (LOW, True)"
  using calculate_confidence_rule [of three_docs default_config]
        calculate_confidence_rule [of "[]" default_config] three_docs_facts
  by (simp add: default_config_def)

theorem calculate_confidence_counterexample:
  "Max (snd ` set three_docs) = 0.8
   \<and> int (length (filter (\<lambda>(doc, sc). sc \<ge> 0.25) three_docs)) = 3
   \<and> calculate_confidence three_docs \<lparr> min_score = 0.25, min_sources = 4, mmr_lambda = 0.5 \<rparr>
       = (LOW, True)"
  using three_docs_facts
  by (simp add: calculate_confidence_def max_score_of_def valid_sources_of_def three_docs_def)

section \<open>Properties of the vector store module\<close>

lemma get_vectorstore_not_built:
  "vectorstore_global g = None \<Longrightarrow> \<not> chroma_db_exists env \<Longrightarrow>
   get_vectorstore env g = (store_not_loaded g, None)"
  by (simp add: get_vectorstore_def split: option.splits)

lemma search_mmr_loaded:
  assumes "get_vectorstore env g = (g', Some vs)"
    and "max_marginal_relevance_search vs query k fetch_k lambda_mult = Inr docs"
    and "get_embeddings env = None" and "embed_query env query = None"
  shows "search_mmr env g query k fetch_k lambda_mult
         = (g', map (\<lambda>doc. (doc, rederive_score vs doc)) docs)"
  using assms by (simp add: search_mmr_def)

lemma rederive_score_failed:
  "(case similarity_search_with_score vs (take 200 (page_content doc)) 1 of
      Inl e \<Rightarrow> True | Inr found \<Rightarrow> found = []) \<Longrightarrow>
   rederive_score vs doc = 0.5"
  by (auto simp: rederive_score_def split: sum.splits list.splits)

lemma get_vectorstore_loaded:
  "get_vectorstore env_loaded globals_initial
   = (\<lparr> vectorstore_global = Some vs_flaky, is_ready_global = True \<rparr>, Some vs_flaky)"
  by (simp add: get_vectorstore_def env_loaded_def globals_initial_def)

text \<open>
  C6. When the vector index is not yet built (no store is cached in the module
  and no Chroma database exists on disk), \<^verbatim>\<open>search_similar\<close> and \<^verbatim>\<open>search_mmr\<close> return
  the empty list for every query and every parameter, whatever the backend would answer
  or raise. Both functions are total: every exception of the backend is a branch that
  they turn into a list.
\<close>

theorem search_without_index:
  assumes "vectorstore_global g = None" and "\<not> chroma_db_exists env"
  shows "search_similar env g query k = (store_not_loaded g, [])
       \<and> search_mmr env g query k fetch_k lambda_mult = (store_not_loaded g, [])"
  using get_vectorstore_not_built [OF assms]
  by (simp add: search_similar_def search_mmr_def)

theorem search_without_index_witness:
  "vectorstore_global globals_initial = None \<and> \<not> chroma_db_exists env_not_built
   \<and> snd (search_similar env_not_built globals_initial ''q'' 5) = []
   \<and> snd (search_mmr env_not_built globals_initial ''q'' 5 20 0.5) = []"
proof -
  have a: "vectorstore_global globals_initial = None"
    by (simp add: globals_initial_def)
  have b: "\<not> chroma_db_exists env_not_built"
    by (simp add: env_not_built_def env_loaded_def)
  from search_without_index [OF a b, of "''q''" 5 20 "0.5"] a b show ?thesis
    by simp
qed

text \<open>
  C9 (as amended). In \<^verbatim>\<open>search_mmr\<close>, when the MMR selection has returned and the
  two embedding calls that precede the re-scoring loop (\<^verbatim>\<open>get_embeddings()\<close> and
  \<^verbatim>\<open>embed_query(query)\<close>) return, the result lists the selected documents in order, and
  every document whose secondary similarity lookup raises or returns no result carries
  the score 0.5. The claim states no condition on the embedding calls; it fails when
  \<^verbatim>\<open>embed_query\<close> raises: the selected documents are then dropped.
\<close>

theorem mmr_default_score:
  assumes "get_vectorstore env g = (g', Some vs)"
    and "max_marginal_relevance_search vs query k fetch_k lambda_mult = Inr docs"
    and "get_embeddings env = None" and "embed_query env query = None"
  shows "map fst (snd (search_mmr env g query k fetch_k lambda_mult)) = docs
       \<and> (\<forall>i < length docs.
            (case similarity_search_with_score vs (take 200 (page_content (docs ! i))) 1 of
               Inl e \<Rightarrow> True | Inr found \<Rightarrow> found = []) \<longrightarrow>
            snd (search_mmr env g query k fetch_k lambda_mult) ! i = (docs ! i, 0.5))"
  by (simp add: search_mmr_loaded [OF assms] comp_def rederive_score_failed)

theorem mmr_default_score_witness:
  "max_marginal_relevance_search vs_flaky ''q'' 3 20 0.5 = Inr [doc_a, doc_b, doc_c]
   \<and> similarity_search_with_score vs_flaky (take 200 (page_content doc_a)) 1
       = Inl (BackendError ''timeout'')
   \<and> similarity_search_with_score vs_flaky (take 200 (page_content doc_b)) 1 = Inr []
   \<and> snd (search_mmr env_loaded globals_initial ''q'' 3 20 0.5)
       = [(doc_a, 0.5), (doc_b, 0.5), (doc_c, 0.9)]"
proof -
  have m: "max_marginal_relevance_search vs_flaky ''q'' 3 20 0.5 = Inr [doc_a, doc_b, doc_c]"
    by (simp add: vs_flaky_def)
  have e: "get_embeddings env_loaded = None" "embed_query env_loaded ''q'' = None"
    by (simp_all add: env_loaded_def)
  have l: "similarity_search_with_score vs_flaky (take 200 (page_content doc_a)) 1
             = Inl (BackendError ''timeout'')"
    "similarity_search_with_score vs_flaky (take 200 (page_content doc_b)) 1 = Inr []"
    "similarity_search_with_score vs_flaky (take 200 (page_content doc_c)) 1 = Inr [(doc_c, 0.9)]"
    by (simp_all add: vs_flaky_def doc_a_def doc_b_def doc_c_def)
  have full: "snd (search_mmr env_loaded globals_initial ''q'' 3 20 0.5)
      = [(doc_a, 0.5), (doc_b, 0.5), (doc_c, 0.9)]"
    using search_mmr_loaded [OF get_vectorstore_loaded m e] l
    by (simp add: rederive_score_def)
  from mmr_default_score [OF get_vectorstore_loaded m e]
  have "snd (search_mmr env_loaded globals_initial ''q'' 3 20 0.5) ! 0 = (doc_a, 0.5)"
    and "snd (search_mmr env_loaded globals_initial ''q'' 3 20 0.5) ! 1 = (doc_b, 0.5)"
    using l by simp_all
  with full m l show ?thesis by simp
qed

theorem mmr_embed_failure_counterexample:
  "max_marginal_relevance_search vs_flaky ''q'' 3 20 0.5 = Inr [doc_a, doc_b, doc_c]
   \<and> similarity_search_with_score vs_flaky (take 200 (page_content doc_a)) 1
       = Inl (BackendError ''timeout'')
   \<and> snd (get_vectorstore env_embed_raises globals_initial) = Some vs_flaky
   \<and> snd (search_mmr env_embed_raises globals_initial ''q'' 3 20 0.5) = []
   \<and> (doc_a, 0.5) \<notin> set (snd (search_mmr env_embed_raises globals_initial ''q'' 3 20 0.5))"
proof -
  have g: "get_vectorstore env_embed_raises globals_initial
           = (\<lparr> vectorstore_global = Some vs_flaky, is_ready_global = True \<rparr>, Some vs_flaky)"
    by (simp add: get_vectorstore_def env_embed_raises_def env_loaded_def globals_initial_def)
  have m: "max_marginal_relevance_search vs_flaky ''q'' 3 20 0.5 = Inr [doc_a, doc_b, doc_c]"
    by (simp add: vs_flaky_def)
  have l: "similarity_search_with_score vs_flaky (take 200 (page_content doc_a)) 1
             = Inl (BackendError ''timeout'')"
    by (simp add: vs_flaky_def doc_a_def)
  have e: "get_embeddings env_embed_raises = None"
    "embed_query env_embed_raises ''q'' = Some (BackendError ''timeout'')"
    by (simp_all add: env_embed_raises_def env_loaded_def)
  have r: "snd (search_mmr env_embed_raises globals_initial ''q'' 3 20 0.5) = []"
    using g m e by (simp add: search_mmr_def)
  from g m l r show ?thesis by simp
qed

section \<open>Properties of the single-pass query functions\<close>

lemma weak_hit_facts:
  "store_ready env_weak_hit"
  "rag_retrieve env_weak_hit ''q'' 5 SIMILARITY = [(doc_a, 0.1)]"
  "calculate_confidence [(doc_a, 0.1)] (get_rag_config env_weak_hit) = (LOW, True)"
  by (simp_all add: env_weak_hit_def rag_retrieve_def calculate_confidence_def
                    max_score_of_def valid_sources_of_def default_config_def)

lemma no_hit_facts:
  "store_ready env_no_hit"
  "rag_retrieve env_no_hit ''q'' 5 SIMILARITY = []"
  "calculate_confidence [] (get_rag_config env_no_hit) = (LOW, True)"
  by (simp_all add: env_no_hit_def env_weak_hit_def rag_retrieve_def calculate_confidence_def)

text \<open>
  C10 (as amended). In \<^verbatim>\<open>rag_query\<close> and \<^verbatim>\<open>rag_query_stream\<close>, with the vector
  store ready: the templated fallback answer is produced, without any generation call,
  exactly when \<open>need_fallback\<close> holds and the answer mode is strict. In every other
  case with at least one retrieved document (so in balanced and creative mode also when
  \<open>need_fallback\<close> holds and the confidence is low) exactly one generation call is made,
  with the template of the mode and the formatted retrieved documents as context. In every
  other case with no retrieved document the fixed apology is returned with confidence low
  and no generation call is made.
\<close>

theorem fallback_only_in_strict_mode:
  assumes "store_ready env"
    and "docs = rag_retrieve env question k rmode"
    and "calculate_confidence docs (get_rag_config env) = (conf, need_fallback)"
  shows "(need_fallback \<and> answer_mode = STRICT \<longrightarrow>
            rag_query env question uid k rmode answer_mode
              = ([], Inr \<lparr> rag_answer = generate_fallback_response env question docs,
                          rag_sources = extract_sources env docs, rag_confidence = conf \<rparr>)
          \<and> rag_query_stream env question uid k rmode answer_mode
              = ([], char_tokens (generate_fallback_response env question docs)
                     @ [EndEvent (generate_fallback_response env question docs)
                          (extract_sources env docs) (level_value conf)]))
       \<and> (\<not> (need_fallback \<and> answer_mode = STRICT) \<and> docs \<noteq> [] \<longrightarrow>
            fst (rag_query env question uid k rmode answer_mode)
              = [rag_request env question uid answer_mode docs]
          \<and> snd (rag_query env question uid k rmode answer_mode)
              = map_sum id (\<lambda>ans. \<lparr> rag_answer = ans, rag_sources = extract_sources env docs,
                                     rag_confidence = conf \<rparr>)
                  (chain_invoke env (rag_request env question uid answer_mode docs))
          \<and> fst (rag_query_stream env question uid k rmode answer_mode)
              = [rag_request env question uid answer_mode docs])
       \<and> (\<not> (need_fallback \<and> answer_mode = STRICT) \<and> docs = [] \<longrightarrow>
            rag_query env question uid k rmode answer_mode
              = ([], Inr \<lparr> rag_answer = NO_DOCS_ANSWER,
                          rag_sources = [], rag_confidence = LOW \<rparr>)
          \<and> rag_query_stream env question uid k rmode answer_mode
              = ([], char_tokens NO_DOCS_ANSWER @ [EndEvent NO_DOCS_ANSWER [] ''low'']))"
proof (intro conjI impI)
  assume "need_fallback \<and> answer_mode = STRICT"
  with assms show "rag_query env question uid k rmode answer_mode
      = ([], Inr \<lparr> rag_answer = generate_fallback_response env question docs,
                  rag_sources = extract_sources env docs, rag_confidence = conf \<rparr>)"
    by (simp add: rag_query_def Let_def)
next
  assume "need_fallback \<and> answer_mode = STRICT"
  with assms show "rag_query_stream env question uid k rmode answer_mode
      = ([], char_tokens (generate_fallback_response env question docs)
             @ [EndEvent (generate_fallback_response env question docs)
                  (extract_sources env docs) (level_value conf)])"
    by (simp add: rag_query_stream_def Let_def)
next
  assume "\<not> (need_fallback \<and> answer_mode = STRICT) \<and> docs \<noteq> []"
  with assms show "fst (rag_query env question uid k rmode answer_mode)
      = [rag_request env question uid answer_mode docs]"
    by (auto simp: rag_query_def Let_def)
next
  assume "\<not> (need_fallback \<and> answer_mode = STRICT) \<and> docs \<noteq> []"
  with assms show "snd (rag_query env question uid k rmode answer_mode)
      = map_sum id (\<lambda>ans. \<lparr> rag_answer = ans, rag_sources = extract_sources env docs,
                             rag_confidence = conf \<rparr>)
          (chain_invoke env (rag_request env question uid answer_mode docs))"
    by (auto simp: rag_query_def Let_def split: sum.splits)
next
  assume "\<not> (need_fallback \<and> answer_mode = STRICT) \<and> docs \<noteq> []"
  with assms show "fst (rag_query_stream env question uid k rmode answer_mode)
      = [rag_request env question uid answer_mode docs]"
    by (auto simp: rag_query_stream_def Let_def split: prod.splits option.splits)
next
  assume a: "\<not> (need_fallback \<and> answer_mode = STRICT) \<and> docs = []"
  with assms(3) have c: "conf = LOW" "need_fallback"
    by (simp_all add: calculate_confidence_def)
  from a assms c show "rag_query env question uid k rmode answer_mode
      = ([], Inr \<lparr> rag_answer = NO_DOCS_ANSWER, rag_sources = [], rag_confidence = LOW \<rparr>)"
    by (auto simp: rag_query_def Let_def extract_sources_def)
next
  assume a: "\<not> (need_fallback \<and> answer_mode = STRICT) \<and> docs = []"
  with assms(3) have c: "conf = LOW" "need_fallback"
    by (simp_all add: calculate_confidence_def)
  from a assms c show "rag_query_stream env question uid k rmode answer_mode
      = ([], char_tokens NO_DOCS_ANSWER @ [EndEvent NO_DOCS_ANSWER [] ''low''])"
    by (auto simp: rag_query_stream_def Let_def extract_sources_def)
qed

theorem fallback_only_in_strict_mode_witness:
  "store_ready env_weak_hit
   \<and> rag_retrieve env_weak_hit ''q'' 5 SIMILARITY = [(doc_a, 0.1)]
   \<and> calculate_confidence [(doc_a, 0.1)] (get_rag_config env_weak_hit) = (LOW, True)
   \<and> rag_query env_weak_hit ''q'' ''u'' 5 SIMILARITY STRICT
       = ([], Inr \<lparr> rag_answer = generate_fallback_response env_weak_hit ''q'' [(doc_a, 0.1)],
                   rag_sources = extract_sources env_weak_hit [(doc_a, 0.1)],
                   rag_confidence = LOW \<rparr>)
   \<and> fst (rag_query env_weak_hit ''q'' ''u'' 5 SIMILARITY BALANCED)
       = [rag_request env_weak_hit ''q'' ''u'' BALANCED [(doc_a, 0.1)]]
   \<and> snd (rag_query env_weak_hit ''q'' ''u'' 5 SIMILARITY BALANCED)
       = Inr \<lparr> rag_answer = ''generated'',
                rag_sources = extract_sources env_weak_hit [(doc_a, 0.1)],
                rag_confidence = LOW \<rparr>
   \<and> fst (rag_query_stream env_weak_hit ''q'' ''u'' 5 SIMILARITY CREATIVE)
       = [rag_request env_weak_hit ''q'' ''u'' CREATIVE [(doc_a, 0.1)]]
   \<and> rag_query env_no_hit ''q'' ''u'' 5 SIMILARITY CREATIVE
       = ([], Inr \<lparr> rag_answer = NO_DOCS_ANSWER, rag_sources = [], rag_confidence = LOW \<rparr>)"
proof -
  note w = weak_hit_facts(1) weak_hit_facts(2) [symmetric] weak_hit_facts(3)
  note n = no_hit_facts(1) no_hit_facts(2) [symmetric] no_hit_facts(3)
  have g: "chain_invoke env_weak_hit (rag_request env_weak_hit ''q'' ''u'' BALANCED [(doc_a, 0.1)])
           = Inr ''generated''"
    by (simp add: env_weak_hit_def)
  from fallback_only_in_strict_mode [OF w, of STRICT "''u''"]
       fallback_only_in_strict_mode [OF w, of BALANCED "''u''"]
       fallback_only_in_strict_mode [OF w, of CREATIVE "''u''"]
       fallback_only_in_strict_mode [OF n, of CREATIVE "''u''"]
       weak_hit_facts g
  show ?thesis by simp
qed

theorem balanced_empty_retrieval_counterexample:
  "store_ready env_no_hit
   \<and> calculate_confidence (rag_retrieve env_no_hit ''q'' 5 SIMILARITY) (get_rag_config env_no_hit)
       = (LOW, True)
   \<and> rag_query env_no_hit ''q'' ''u'' 5 SIMILARITY BALANCED
       = ([], Inr \<lparr> rag_answer = NO_DOCS_ANSWER, rag_sources = [], rag_confidence = LOW \<rparr>)
   \<and> fst (rag_query_stream env_no_hit ''q'' ''u'' 5 SIMILARITY BALANCED) = []"
  using no_hit_facts
  by (simp add: rag_query_def rag_query_stream_def extract_sources_def)

end
